theory Spec2Isabelle
  imports Complex_Main "HOL-Library.Multiset"
begin

section \<open>JavaScript values and the database interface\<close>

text \<open>
  Optional strings model request fields that may be \<open>undefined\<close>. A string is falsy
  in JavaScript when it is undefined or empty; \<open>a || b\<close> yields \<open>a\<close> when \<open>a\<close> is
  truthy and \<open>b\<close> otherwise. Dates are milliseconds since the epoch (\<open>int\<close>); the
  value of \<open>new Date()\<close> is the parameter \<open>now\<close> of each operation. Prices are JavaScript
  numbers, idealised as reals.
\<close>

definition truthy :: "string option \<Rightarrow> bool" where
  "truthy s = (case s of None \<Rightarrow> False | Some v \<Rightarrow> v \<noteq> [])"

definition str :: "string option \<Rightarrow> string" where
  "str s = (case s of None \<Rightarrow> [] | Some v \<Rightarrow> v)"

definition js_or :: "string option \<Rightarrow> string option \<Rightarrow> string option" where
  "js_or a b = (if truthy a then a else b)"

definition is_ws :: "char \<Rightarrow> bool" where
  "is_ws c = ((of_char c :: nat) \<in> {9, 10, 11, 12, 13, 32})"

definition trim :: "string \<Rightarrow> string" where
  "trim s = rev (dropWhile is_ws (rev (dropWhile is_ws s)))"

definition lower_char :: "char \<Rightarrow> char" where
  "lower_char c =
     (if 65 \<le> (of_char c :: nat) \<and> (of_char c :: nat) \<le> 90
      then char_of ((of_char c :: nat) + 32) else c)"

definition toLowerCase :: "string \<Rightarrow> string" where
  "toLowerCase s = map lower_char s"

definition is_hex :: "char \<Rightarrow> bool" where
  "is_hex c =
     (let n = (of_char c :: nat)
      in (48 \<le> n \<and> n \<le> 57) \<or> (97 \<le> n \<and> n \<le> 102) \<or> (65 \<le> n \<and> n \<le> 70))"

text \<open>The test \<^verbatim>\<open>/^[0-9a-fA-F]{24}$/.test(s)\<close> of the order service.\<close>

definition isObjectId :: "string \<Rightarrow> bool" where
  "isObjectId s = (length s = 24 \<and> list_all is_hex s)"

text \<open>
  Service failures. \<open>AppError m c\<close> is the application error with message \<open>m\<close> and HTTP
  status \<open>c\<close>; \<open>RawError m\<close> is any other exception that leaves a service uncaught.
\<close>

datatype Failure = AppError string nat | RawError string

text \<open>
  The collections are lists of documents. Every call to the object-document mapper may
  reject (connection loss, cast or validation error): \<open>F c = Some m\<close> says that the call
  \<open>c\<close> of the running operation rejects with an error of message \<open>m\<close>.
\<close>

datatype DbCall =
    User_findById | User_findOne_email | User_findOne_or
  | Order_save | Order_findById | Order_findByIdAndUpdate
  | Order_countDocuments | Order_aggregate
  | Message_findOne | Message_save | Message_find
  | SiteSubmission_save | SiteSubmission_findById | SiteSubmission_findByIdAndUpdate

type_synonym Faults = "DbCall \<Rightarrow> string option"

definition db_call :: "Faults \<Rightarrow> DbCall \<Rightarrow> 'a \<Rightarrow> string + 'a" where
  "db_call F c v = (case F c of Some m \<Rightarrow> Inl m | None \<Rightarrow> Inr v)"

definition no_faults :: Faults where
  "no_faults = (\<lambda>c. None)"

section \<open>Orders\<close>

datatype OrderStatus = Pending | Processing | Completed | Failed

record OrderFile =
  f_name :: string
  f_type :: string
  f_size :: nat
  f_data :: string

text \<open>
  Modelled from the spec: the User and Order schemas (\<^verbatim>\<open>user.model\<close>, \<^verbatim>\<open>order.model\<close>)
  are not among the sources. A user has an identifier, an email and an optional nicename; an
  order carries the fields the order service writes, its price is a number and its status is
  one of the four order states.
\<close>

record User =
  usr_id :: string
  user_email :: string
  user_nicename :: "string option"

record IOrder =
  o_id :: string
  o_userId :: string
  o_user_id :: string
  o_userName :: string
  o_userEmail :: string
  o_item_name :: string
  o_price :: real
  o_type :: string
  o_status :: OrderStatus
  o_date :: int
  o_description :: "string option"
  o_features :: "string list option"
  o_article :: "string option"
  o_file :: "OrderFile option"
  o_message :: "string option"
  o_message_time :: "int option"
  o_submittedAt :: "int option"
  o_completionMessage :: "string option"
  o_completionLink :: "string option"
  o_completedAt :: "int option"
  o_updatedAt :: "int option"

text \<open>
  The request body of \<open>createOrder\<close>: the fields of \<^verbatim>\<open>CreateOrderDto\<close> and the fields the
  service reads through \<^verbatim>\<open>(data as any)\<close> (\<open>amount\<close>, \<open>name\<close>, \<open>title\<close>, \<open>submittedAt\<close>), and a
  \<open>status\<close> a caller may send along. Each may be absent.
\<close>

record CreateOrderDto =
  c_userId :: "string option"
  c_user_id :: "string option"
  c_userName :: "string option"
  c_userEmail :: "string option"
  c_item_name :: "string option"
  c_price :: "real option"
  c_type :: "string option"
  c_description :: "string option"
  c_features :: "string list option"
  c_article :: "string option"
  c_file :: "OrderFile option"
  c_message :: "string option"
  c_amount :: "real option"
  c_name :: "string option"
  c_title :: "string option"
  c_submittedAt :: "int option"
  c_status :: "string option"

subsection \<open>createOrder\<close>

text \<open>
  The sources hold two versions of the order service, which differ in \<open>createOrder\<close> only.
  The model follows the version the specification describes, which falls back to the email;
  the other one looks the user up by \<open>userId\<close> alone and copies the request into the order.
\<close>

text \<open>
  \<^verbatim>\<open>data.price || (data as any).amount || 0\<close>: a number is falsy when it is \<open>0\<close>.
\<close>

definition orderAmount :: "CreateOrderDto \<Rightarrow> real" where
  "orderAmount data =
     (case c_price data of
        Some p \<Rightarrow> if p \<noteq> 0 then p else (case c_amount data of Some a \<Rightarrow> a | None \<Rightarrow> 0)
      | None \<Rightarrow> (case c_amount data of Some a \<Rightarrow> a | None \<Rightarrow> 0))"

text \<open>
  A query on \<open>_id\<close> casts its string to an object identifier. A string of 24 hexadecimal
  digits casts to the identifier with those digits, whatever their case (stored identifiers
  are written in lowercase); for any other string the query rejects with the mapper's
  \<open>CastError\<close> before it reaches the database.
\<close>

definition castObjectId :: "string \<Rightarrow> string + string" where
  "castObjectId v =
     (if isObjectId v then Inr (toLowerCase v)
      else Inl (''Cast to ObjectId failed for value '' @ [CHR 0x22] @ v @ [CHR 0x22]
                @ '' (type string) at path '' @ [CHR 0x22] @ ''_id'' @ [CHR 0x22]
                @ '' for model '' @ [CHR 0x22] @ ''User'' @ [CHR 0x22]))"

text \<open>
  The first statements of \<open>createOrder\<close>: the user is looked up by \<open>userId\<close> when that has
  the shape of an object identifier, then by the lowercased \<open>userEmail\<close>, then by \<open>user_id\<close>
  taken as an email or as an identifier. Only the first lookup tests the shape of the
  identifier: the third one hands \<open>user_id\<close> to the query on \<open>_id\<close> as it is, and rejects
  when that is no object identifier. \<open>Inl m\<close>: a lookup rejected with message \<open>m\<close>.
\<close>

definition resolveUser :: "Faults \<Rightarrow> User list \<Rightarrow> CreateOrderDto \<Rightarrow> string + User option" where
  "resolveUser F users data =
     (case (if truthy (c_userId data) \<and> isObjectId (str (c_userId data))
            then db_call F User_findById
                   (find (\<lambda>u. usr_id u = toLowerCase (str (c_userId data))) users)
            else Inr None) of
        Inl m \<Rightarrow> Inl m
      | Inr user1 \<Rightarrow>
          (case (if user1 = None \<and> truthy (c_userEmail data)
                 then db_call F User_findOne_email
                        (find (\<lambda>u. user_email u = toLowerCase (str (c_userEmail data))) users)
                 else Inr user1) of
             Inl m \<Rightarrow> Inl m
           | Inr user2 \<Rightarrow>
               (if user2 = None \<and> truthy (c_user_id data)
                then (case castObjectId (str (c_user_id data)) of
                        Inl m \<Rightarrow> Inl m
                      | Inr ident \<Rightarrow>
                          db_call F User_findOne_or
                            (find (\<lambda>u. user_email u = toLowerCase (str (c_user_id data))
                                      \<or> usr_id u = ident) users))
                else Inr user2)))"

text \<open>
  The conditions of the three queries of \<open>resolveUser\<close> on one user document: a user that
  none of them holds for cannot be found by any of the lookups.
\<close>

definition user_matches :: "CreateOrderDto \<Rightarrow> User \<Rightarrow> bool" where
  "user_matches data u =
     ((truthy (c_userId data) \<and> isObjectId (str (c_userId data))
         \<and> usr_id u = toLowerCase (str (c_userId data)))
      \<or> (truthy (c_userEmail data) \<and> user_email u = toLowerCase (str (c_userEmail data)))
      \<or> (truthy (c_user_id data) \<and> isObjectId (str (c_user_id data))
          \<and> (user_email u = toLowerCase (str (c_user_id data))
              \<or> usr_id u = toLowerCase (str (c_user_id data)))))"

text \<open>\<^verbatim>\<open>user.user_email?.split("@")[0]\<close>: the part of the email before the first \<open>@\<close>.\<close>

definition email_local_part :: "string \<Rightarrow> string" where
  "email_local_part e = takeWhile (\<lambda>c. c \<noteq> CHR ''@'') e"

text \<open>The document \<open>orderDataToSave\<close> built by \<open>createOrder\<close>; \<open>oid\<close> is the fresh identifier.\<close>

definition orderDataToSave ::
  "int \<Rightarrow> string \<Rightarrow> User \<Rightarrow> CreateOrderDto \<Rightarrow> string \<Rightarrow> string \<Rightarrow> IOrder" where
  "orderDataToSave now oid user data itemName orderType =
     \<lparr> o_id = oid,
       o_userId = usr_id user,
       o_user_id = str (js_or (c_user_id data) (js_or (c_userEmail data) (Some (user_email user)))),
       o_userName = str (js_or (c_userName data)
                      (js_or (user_nicename user)
                        (js_or (Some (email_local_part (user_email user))) (Some [])))),
       o_userEmail = toLowerCase (str (js_or (c_userEmail data) (Some (user_email user)))),
       o_item_name = itemName,
       o_price = orderAmount data,
       o_type = orderType,
       o_status = Pending,
       o_date = now,
       o_description = (if truthy (c_description data) then c_description data else None),
       o_features = (case c_features data of
                       Some fs \<Rightarrow> if length fs > 0 then Some fs else None
                     | None \<Rightarrow> None),
       o_article = (if truthy (c_article data) then c_article data else None),
       o_file = c_file data,
       o_message = (if truthy (c_message data) then c_message data else None),
       o_message_time = (if truthy (c_message data) then Some now else None),
       o_submittedAt = c_submittedAt data,
       o_completionMessage = None,
       o_completionLink = None,
       o_completedAt = None,
       o_updatedAt = None \<rparr>"

text \<open>
  \<open>createOrder\<close> returns the order or the failure, and the orders collection afterwards.
  Any rejected database call is caught and rethrown as a 500 application error.
\<close>

definition createOrder_failed :: "string \<Rightarrow> Failure" where
  "createOrder_failed m =
     AppError (''Failed to create order: '' @ (if m = [] then ''Unknown error'' else m)) 500"

definition createOrder ::
  "Faults \<Rightarrow> int \<Rightarrow> string \<Rightarrow> User list \<Rightarrow> IOrder list \<Rightarrow> CreateOrderDto
     \<Rightarrow> (Failure + IOrder) \<times> IOrder list" where
  "createOrder F now oid users orders data =
     (case resolveUser F users data of
        Inl m \<Rightarrow> (Inl (createOrder_failed m), orders)
      | Inr None \<Rightarrow> (Inl (AppError ''User not found'' 404), orders)
      | Inr (Some user) \<Rightarrow>
          if orderAmount data \<le> 0
          then (Inl (AppError ''Order amount must be greater than 0'' 400), orders)
          else
            let itemName = str (js_or (c_item_name data)
                                 (js_or (c_name data) (js_or (c_title data) (Some []))))
            in if trim itemName = []
               then (Inl (AppError ''Item name is required'' 400), orders)
               else
                 let orderType = str (js_or (c_type data) (Some ''service''))
                 in if trim orderType = []
                    then (Inl (AppError ''Order type is required'' 400), orders)
                    else
                      let order = orderDataToSave now oid user data itemName orderType
                      in (case db_call F Order_save (orders @ [order]) of
                            Inl m \<Rightarrow> (Inl (createOrder_failed m), orders)
                          | Inr orders' \<Rightarrow> (Inr order, orders')))"

subsection \<open>Notifications\<close>

datatype SubmissionStatus = SubPending | Approved | Rejected

record ISiteSubmission =
  ss_id :: string
  ss_userId :: "string option"
  ss_userName :: string
  ss_userEmail :: string
  ss_websites :: "string list"
  ss_isOwner :: bool
  ss_publisherName :: "string option"
  ss_country :: "string option"
  ss_phone :: "string option"
  ss_message :: "string option"
  ss_siteDescription :: "string option"
  ss_monthlyTraffic :: "string option"
  ss_domainAuthority :: "string option"
  ss_domainRating :: "string option"
  ss_websiteOwner :: "string option"
  ss_csvFile :: "string option"
  ss_status :: SubmissionStatus
  ss_submittedAt :: int
  ss_reviewedAt :: "int option"
  ss_reviewedBy :: "string option"
  ss_adminNotes :: "string option"

text \<open>
  A notification is one call of an email function of \<^verbatim>\<open>email.utils\<close> with its argument: the
  order or submission the fields are read from, and the fields computed by the caller
  (\<open>completedAt\<close>; \<open>status\<close> and \<open>message\<close>; \<open>adminNotes\<close>). For the acknowledgement of a new
  submission the arguments are \<open>userEmail\<close>, \<open>userName\<close> and \<open>websites\<close> of the request.
\<close>

datatype Notification =
    OrderConfirmationEmail IOrder
  | OrderCompletionEmail IOrder int
  | OrderStatusUpdateEmail IOrder OrderStatus "string option"
  | SiteSubmissionReceivedEmail string string "string list"
  | SiteSubmissionApprovalEmail ISiteSubmission "string option"
  | SiteSubmissionRejectionEmail ISiteSubmission "string option"

text \<open>
  An email function returns the boolean of \<open>sendEmail\<close> (which catches the transport's
  errors and returns \<open>false\<close>) or throws while it formats the message. The mailer is the
  environment's answer to each call. An operation reports what it did beside its result:
  the email calls it made and the lines it logged.
\<close>

datatype MailOutcome = Returned bool | Threw string

type_synonym Mailer = "Notification \<Rightarrow> MailOutcome"

text \<open>
  \<open>sendEmail\<close> itself: \<open>false\<close> without a transporter (the credentials are not
  configured), \<open>false\<close> when the transport rejects the message, \<open>true\<close> when it accepts
  it. \<open>Inl err\<close> is the transport's error, \<open>Inr messageId\<close> its receipt.
\<close>

definition sendEmail :: "bool \<Rightarrow> string + string \<Rightarrow> bool" where
  "sendEmail configured transport =
     (if \<not> configured then False
      else case transport of Inl err \<Rightarrow> False | Inr messageId \<Rightarrow> True)"

datatype Effect = Email Notification | LogSuccess string | LogError string

text \<open>
  \<^verbatim>\<open>try { await send(n); <on_success> } catch (e) { <log the error> }\<close>
\<close>

definition try_send :: "Mailer \<Rightarrow> Notification \<Rightarrow> Effect list \<Rightarrow> string \<Rightarrow> Effect list" where
  "try_send mail n on_success err_msg =
     Email n # (case mail n of Returned b \<Rightarrow> on_success | Threw e \<Rightarrow> [LogError err_msg])"

definition emails :: "Effect list \<Rightarrow> Notification list" where
  "emails es = concat (map (\<lambda>e. case e of Email n \<Rightarrow> [n] | _ \<Rightarrow> []) es)"

subsection \<open>updateOrder and completeOrder\<close>

record UpdateOrderDto =
  u_status :: "OrderStatus option"
  u_description :: "string option"
  u_features :: "string list option"
  u_article :: "string option"
  u_file :: "OrderFile option"
  u_message :: "string option"
  u_completionMessage :: "string option"
  u_completionLink :: "string option"
  u_completedAt :: "int option"

fun update_first :: "('a \<Rightarrow> bool) \<Rightarrow> ('a \<Rightarrow> 'a) \<Rightarrow> 'a list \<Rightarrow> 'a list" where
  "update_first P f [] = []"
| "update_first P f (x # xs) = (if P x then f x # xs else x # update_first P f xs)"

text \<open>
  \<^verbatim>\<open>Model.findByIdAndUpdate(id, update, { new: true })\<close>: the first document with the
  identifier is replaced by its update; the updated document (or null) is returned.
\<close>

definition findByIdAndUpdate ::
  "('a \<Rightarrow> string) \<Rightarrow> string \<Rightarrow> ('a \<Rightarrow> 'a) \<Rightarrow> 'a list \<Rightarrow> 'a option \<times> 'a list" where
  "findByIdAndUpdate ident i f docs =
     (case find (\<lambda>d. ident d = i) docs of
        None \<Rightarrow> (None, docs)
      | Some d \<Rightarrow> (Some (f d), update_first (\<lambda>d. ident d = i) f docs))"

definition set_opt :: "'a option \<Rightarrow> 'a option \<Rightarrow> 'a option" where
  "set_opt new old = (case new of Some v \<Rightarrow> Some v | None \<Rightarrow> old)"

text \<open>The update document \<^verbatim>\<open>{ ...data, updatedAt: new Date() }\<close>: absent fields stay.\<close>

definition applyUpdate :: "int \<Rightarrow> UpdateOrderDto \<Rightarrow> IOrder \<Rightarrow> IOrder" where
  "applyUpdate now data ord =
     ord\<lparr> o_status := (case u_status data of Some s \<Rightarrow> s | None \<Rightarrow> o_status ord),
          o_description := set_opt (u_description data) (o_description ord),
          o_features := set_opt (u_features data) (o_features ord),
          o_article := set_opt (u_article data) (o_article ord),
          o_file := set_opt (u_file data) (o_file ord),
          o_message := set_opt (u_message data) (o_message ord),
          o_completionMessage := set_opt (u_completionMessage data) (o_completionMessage ord),
          o_completionLink := set_opt (u_completionLink data) (o_completionLink ord),
          o_completedAt := set_opt (u_completedAt data) (o_completedAt ord),
          o_updatedAt := Some now \<rparr>"

definition completedAt_or_now :: "int \<Rightarrow> IOrder \<Rightarrow> int" where
  "completedAt_or_now now ord = (case o_completedAt ord of Some t \<Rightarrow> t | None \<Rightarrow> now)"

text \<open>
  The block of \<open>updateOrder\<close> guarded by \<^verbatim>\<open>newStatus !== previousStatus\<close>: the three
  branches in the order of the source, inside one try/catch.
\<close>

definition statusChangeEmails ::
  "Mailer \<Rightarrow> int \<Rightarrow> UpdateOrderDto \<Rightarrow> OrderStatus \<Rightarrow> IOrder \<Rightarrow> Effect list" where
  "statusChangeEmails mail now data previousStatus ord =
     (let newStatus = o_status ord;
          err = ''Failed to send email notification for order '' @ o_id ord @ '':''
      in if previousStatus = Pending \<and> newStatus = Processing
         then try_send mail (OrderConfirmationEmail ord)
                [LogSuccess (''Payment confirmation email sent for order '' @ o_id ord)] err
         else if newStatus = Completed
         then try_send mail (OrderCompletionEmail ord (completedAt_or_now now ord))
                [LogSuccess (''Order completion email sent for order '' @ o_id ord)] err
         else if newStatus = Failed \<or> (newStatus = Processing \<and> previousStatus \<noteq> Pending)
         then try_send mail (OrderStatusUpdateEmail ord newStatus (u_message data))
                [LogSuccess (''Order status update email sent for order '' @ o_id ord)] err
         else [])"

definition updateOrder ::
  "Faults \<Rightarrow> Mailer \<Rightarrow> int \<Rightarrow> IOrder list \<Rightarrow> string \<Rightarrow> UpdateOrderDto
     \<Rightarrow> (Failure + IOrder) \<times> IOrder list \<times> Effect list" where
  "updateOrder F mail now orders i data =
     (case db_call F Order_findById (find (\<lambda>d. o_id d = i) orders) of
        Inl m \<Rightarrow> (Inl (AppError ''Failed to update order'' 500), orders,
                   [LogError ''Error updating order:''])
      | Inr None \<Rightarrow> (Inl (AppError ''Order not found'' 404), orders, [])
      | Inr (Some previousOrder) \<Rightarrow>
          let previousStatus = o_status previousOrder
          in (case db_call F Order_findByIdAndUpdate
                     (findByIdAndUpdate o_id i (applyUpdate now data) orders) of
                Inl m \<Rightarrow> (Inl (AppError ''Failed to update order'' 500), orders,
                           [LogError ''Error updating order:''])
              | Inr (None, orders') \<Rightarrow> (Inl (AppError ''Order not found'' 404), orders', [])
              | Inr (Some ord, orders') \<Rightarrow>
                  (Inr ord, orders',
                   (if o_status ord \<noteq> previousStatus
                    then statusChangeEmails mail now data previousStatus ord else [])
                   @ [LogSuccess (''Order updated: '' @ o_item_name ord)])))"

text \<open>
  The update document of \<open>completeOrder\<close>:
  \<^verbatim>\<open>{ status: "completed", completionMessage, completionLink, completedAt, updatedAt }\<close>.
\<close>

definition applyCompletion :: "int \<Rightarrow> string option \<Rightarrow> string option \<Rightarrow> IOrder \<Rightarrow> IOrder" where
  "applyCompletion now completionMessage completionLink ord =
     ord\<lparr> o_status := Completed,
          o_completionMessage := set_opt completionMessage (o_completionMessage ord),
          o_completionLink := set_opt completionLink (o_completionLink ord),
          o_completedAt := Some now,
          o_updatedAt := Some now \<rparr>"

definition completeOrder ::
  "Faults \<Rightarrow> Mailer \<Rightarrow> int \<Rightarrow> IOrder list \<Rightarrow> string \<Rightarrow> string option \<Rightarrow> string option
     \<Rightarrow> (Failure + IOrder) \<times> IOrder list \<times> Effect list" where
  "completeOrder F mail now orders i completionMessage completionLink =
     (case db_call F Order_findByIdAndUpdate
             (findByIdAndUpdate o_id i
                (applyCompletion now completionMessage completionLink) orders) of
        Inl m \<Rightarrow> (Inl (AppError ''Failed to complete order'' 500), orders,
                   [LogError ''Error completing order:''])
      | Inr (None, orders') \<Rightarrow> (Inl (AppError ''Order not found'' 404), orders', [])
      | Inr (Some ord, orders') \<Rightarrow>
          (Inr ord, orders',
           try_send mail (OrderCompletionEmail ord (completedAt_or_now now ord))
             [LogSuccess (''Order completion email sent for order '' @ o_id ord)]
             (''Failed to send completion email for order '' @ o_id ord @ '':'')
           @ [LogSuccess (''Order completed: '' @ o_item_name ord)]))"

subsection \<open>getOrderStats\<close>

record OrderStats =
  total :: nat
  pending :: nat
  processing :: nat
  completed :: nat
  failed :: nat
  totalRevenue :: real
  averageOrderValue :: real

text \<open>
  The \<^verbatim>\<open>$group\<close> stage with \<^verbatim>\<open>_id: null\<close>: no row when nothing matches, else one row with
  the sum and the average of the prices.
\<close>

definition aggregate_revenue :: "IOrder list \<Rightarrow> (real \<times> real) list" where
  "aggregate_revenue ms =
     (if ms = [] then []
      else [(sum_list (map o_price ms), sum_list (map o_price ms) / real (length ms))])"

text \<open>\<^verbatim>\<open>const query = userId ? { userId } : {}\<close> as a condition on an order.\<close>

definition statsQuery :: "string option \<Rightarrow> IOrder \<Rightarrow> bool" where
  "statsQuery userId d = (if truthy userId then o_userId d = str userId else True)"

text \<open>
  The same \<open>query\<close> object filters the five counts and the \<^verbatim>\<open>$match\<close> stage. The mapper
  casts the filter of \<open>countDocuments\<close> to the schema's types and hands an aggregation
  pipeline to the driver as it is; whether the string of the \<^verbatim>\<open>$match\<close> stage then
  equals a stored \<open>userId\<close> depends on the order schema, which is not among the sources.
  \<open>agg_cast\<close> stands for it: when it is false, as for a \<open>userId\<close> stored as a reference to
  the user, a stage with a user filter matches nothing.
\<close>

definition getOrderStats ::
  "Faults \<Rightarrow> bool \<Rightarrow> IOrder list \<Rightarrow> string option \<Rightarrow> Failure + OrderStats" where
  "getOrderStats F agg_cast orders userId =
     (let query = statsQuery userId;
          match = (if truthy userId \<and> \<not> agg_cast then (\<lambda>d. False) else query);
          count = (\<lambda>P. length (filter P orders))
      in case db_call F Order_countDocuments
                (count query,
                 count (\<lambda>d. query d \<and> o_status d = Pending),
                 count (\<lambda>d. query d \<and> o_status d = Processing),
                 count (\<lambda>d. query d \<and> o_status d = Completed),
                 count (\<lambda>d. query d \<and> o_status d = Failed)) of
           Inl m \<Rightarrow> Inl (AppError ''Failed to fetch order statistics'' 500)
         | Inr (n, np, nr, nc, nf) \<Rightarrow>
             (case db_call F Order_aggregate (aggregate_revenue (filter match orders)) of
                Inl m \<Rightarrow> Inl (AppError ''Failed to fetch order statistics'' 500)
              | Inr revenueData \<Rightarrow>
                  Inr \<lparr> total = n, pending = np, processing = nr, completed = nc, failed = nf,
                        totalRevenue = (case revenueData of [] \<Rightarrow> 0 | r # _ \<Rightarrow> fst r),
                        averageOrderValue = (case revenueData of [] \<Rightarrow> 0 | r # _ \<Rightarrow> snd r) \<rparr>))"

section \<open>Messages\<close>

text \<open>
  Modelled from the spec: the Message schema (\<^verbatim>\<open>message.model\<close>) is not among the sources.
  A thread is keyed by \<open>commentId\<close> and holds an ordered sequence of content entries, each
  with its own timestamp; of an entry the code reads only \<open>time\<close>. \<open>mc_time = None\<close> is an
  entry whose \<open>time\<close> is missing or no date, for which \<^verbatim>\<open>new Date(msg.time).getTime()\<close> is
  \<open>NaN\<close>; the other fields of an entry are carried in \<open>mc_body\<close>.
\<close>

record MessageContent =
  mc_time :: "int option"
  mc_body :: string

record IMessage =
  m_commentId :: string
  m_userId :: string
  m_userName :: string
  m_userEmail :: string
  m_type :: string
  m_content :: "MessageContent list"
  m_approved :: int
  m_date :: int

subsection \<open>The message service\<close>

text \<open>
  The three assignments of \<open>addMessageToThread\<close>: the entry is pushed on the content, the
  date becomes the current time, the thread is marked approved.
\<close>

definition appendEntry :: "int \<Rightarrow> MessageContent \<Rightarrow> IMessage \<Rightarrow> IMessage" where
  "appendEntry now newMessage message =
     message\<lparr> m_content := m_content message @ [newMessage],
              m_date := now,
              m_approved := 1 \<rparr>"

definition addMessageToThread ::
  "Faults \<Rightarrow> int \<Rightarrow> IMessage list \<Rightarrow> string \<Rightarrow> MessageContent
     \<Rightarrow> (Failure + IMessage option) \<times> IMessage list" where
  "addMessageToThread F now messages commentId newMessage =
     (case db_call F Message_findOne (find (\<lambda>m. m_commentId m = commentId) messages) of
        Inl e \<Rightarrow> (Inl (RawError e), messages)
      | Inr None \<Rightarrow> (Inr None, messages)
      | Inr (Some message) \<Rightarrow>
          (case db_call F Message_save
                  (update_first (\<lambda>m. m_commentId m = commentId)
                     (\<lambda>_. appendEntry now newMessage message) messages) of
             Inl e \<Rightarrow> (Inl (RawError e), messages)
           | Inr messages' \<Rightarrow> (Inr (Some (appendEntry now newMessage message)), messages')))"

text \<open>
  \<^verbatim>\<open>Message.find({ userEmail }).sort({ date: -1 })\<close>, with every error caught and answered
  by the empty list.
\<close>

definition getMessagesByUserEmail :: "Faults \<Rightarrow> IMessage list \<Rightarrow> string option \<Rightarrow> IMessage list" where
  "getMessagesByUserEmail F messages userEmail =
     (if \<not> truthy userEmail then []
      else case db_call F Message_find
                  (sort_key (\<lambda>m. - m_date m) (filter (\<lambda>m. m_userEmail m = str userEmail) messages)) of
             Inl e \<Rightarrow> []
           | Inr ms \<Rightarrow> ms)"

subsection \<open>The message stream\<close>

text \<open>
  An event written to the response: the acknowledgement, an error, or one content entry
  with the \<open>commentId\<close> of its thread.
\<close>

datatype SseEvent = Connected | ErrorEvent string | MessageEvent MessageContent string

text \<open>\<^verbatim>\<open>messages.flatMap(msg => msg.content.map(content => ({...content, commentId})))\<close>\<close>

definition flatten :: "IMessage list \<Rightarrow> (MessageContent \<times> string) list" where
  "flatten messages = concat (map (\<lambda>msg. map (\<lambda>c. (c, m_commentId msg)) (m_content msg)) messages)"

text \<open>
  The sources hold two versions of the message controller. The model follows the version the
  specification describes, whose interval callback filters the entries by time; the other one
  filters the threads by \<^verbatim>\<open>parseInt(msg.commentId) > parseInt(lastId)\<close>.
\<close>

text \<open>
  The filter of the interval callback: everything when \<open>lastId\<close> is falsy, else the entries
  with \<^verbatim>\<open>msgTime > new Date().getTime() - 10000\<close>; a comparison with \<open>NaN\<close> is false.
\<close>

definition recent :: "string option \<Rightarrow> int \<Rightarrow> MessageContent \<times> string \<Rightarrow> bool" where
  "recent lastId now e =
     (if \<not> truthy lastId then True
      else case mc_time (fst e) of None \<Rightarrow> False | Some msgTime \<Rightarrow> msgTime > now - 10000)"

definition newMessages ::
  "Faults \<Rightarrow> IMessage list \<Rightarrow> string option \<Rightarrow> string option \<Rightarrow> int \<Rightarrow> (MessageContent \<times> string) list" where
  "newMessages F messages userEmail lastId now =
     filter (recent lastId now) (flatten (getMessagesByUserEmail F messages userEmail))"

text \<open>
  The payload of a verified access token; \<open>verify token = None\<close> when verification throws
  or yields nothing.
\<close>

record JwtPayload =
  jwt_userEmail :: "string option"
  jwt_email :: "string option"

text \<open>
  A connection: the events written so far, whether the interval timer is set, whether the
  response has ended, and how many interval callbacks have started and not yet finished
  (a callback awaits the database before it writes).
\<close>

record Stream =
  s_out :: "SseEvent list"
  s_timer :: bool
  s_ended :: bool
  s_polls :: nat
  s_userEmail :: "string option"
  s_lastId :: "string option"

text \<open>\<^verbatim>\<open>res.write\<close>: nothing is sent on a response that has ended.\<close>

definition res_write :: "SseEvent list \<Rightarrow> Stream \<Rightarrow> Stream" where
  "res_write evs st = (if s_ended st then st else st\<lparr> s_out := s_out st @ evs \<rparr>)"

text \<open>
  The handler up to the registration of the \<open>close\<close> listener. \<open>reqUser\<close> is
  \<^verbatim>\<open>req.user?.userEmail\<close>, \<open>token\<close> and \<open>lastId\<close> are the query parameters.
\<close>

definition messageStream ::
  "(string \<Rightarrow> JwtPayload option) \<Rightarrow> string option \<Rightarrow> string option \<Rightarrow> string option \<Rightarrow> Stream" where
  "messageStream verify reqUser token lastId =
     (let userEmail =
            (if truthy reqUser then reqUser
             else if truthy token then
               (case verify (str token) of
                  None \<Rightarrow> reqUser
                | Some decoded \<Rightarrow> js_or (jwt_userEmail decoded) (js_or (jwt_email decoded) None))
             else reqUser)
      in if \<not> truthy userEmail
         then \<lparr> s_out = [ErrorEvent ''Unauthorized''], s_timer = False, s_ended = True,
                s_polls = 0, s_userEmail = userEmail, s_lastId = lastId \<rparr>
         else \<lparr> s_out = [Connected], s_timer = True, s_ended = False,
                s_polls = 0, s_userEmail = userEmail, s_lastId = lastId \<rparr>)"

text \<open>
  What happens to a connection afterwards: the timer fires (a callback starts, if the timer
  is still set), a started callback gets the answer of the database at time \<open>now\<close> and
  writes its events, or the client disconnects (\<^verbatim>\<open>clearInterval\<close> and \<^verbatim>\<open>res.end\<close>).
\<close>

datatype StreamEvent = Fire | Finish Faults "IMessage list" int | Close

fun stream_step :: "StreamEvent \<Rightarrow> Stream \<Rightarrow> Stream" where
  "stream_step Fire st = (if s_timer st then st\<lparr> s_polls := s_polls st + 1 \<rparr> else st)"
| "stream_step (Finish F messages now) st =
     (if s_polls st = 0 then st
      else res_write
             (map (\<lambda>e. MessageEvent (fst e) (snd e))
                (newMessages F messages (s_userEmail st) (s_lastId st) now))
             (st\<lparr> s_polls := s_polls st - 1 \<rparr>))"
| "stream_step Close st = st\<lparr> s_timer := False, s_ended := True \<rparr>"

fun stream_run :: "StreamEvent list \<Rightarrow> Stream \<Rightarrow> Stream" where
  "stream_run [] st = st"
| "stream_run (e # es) st = stream_run es (stream_step e st)"

section \<open>Site submissions\<close>

record CreateSiteSubmissionDto =
  cs_userId :: "string option"
  cs_userName :: string
  cs_userEmail :: string
  cs_websites :: "string list"
  cs_isOwner :: bool
  cs_publisherName :: "string option"
  cs_country :: "string option"
  cs_phone :: "string option"
  cs_message :: "string option"
  cs_siteDescription :: "string option"
  cs_monthlyTraffic :: "string option"
  cs_domainAuthority :: "string option"
  cs_domainRating :: "string option"
  cs_websiteOwner :: "string option"
  cs_csvFile :: "string option"

record UpdateSiteSubmissionDto =
  us_status :: "SubmissionStatus option"
  us_adminNotes :: "string option"
  us_reviewedBy :: "string option"

text \<open>
  \<^verbatim>\<open>new SiteSubmission(data)\<close> under the schema: strings are trimmed, the email is
  lowercased, the status defaults to pending and \<open>submittedAt\<close> to the current time.
\<close>

definition newSiteSubmission :: "int \<Rightarrow> string \<Rightarrow> CreateSiteSubmissionDto \<Rightarrow> ISiteSubmission" where
  "newSiteSubmission now sid data =
     \<lparr> ss_id = sid,
       ss_userId = cs_userId data,
       ss_userName = trim (cs_userName data),
       ss_userEmail = toLowerCase (trim (cs_userEmail data)),
       ss_websites = map trim (cs_websites data),
       ss_isOwner = cs_isOwner data,
       ss_publisherName = map_option trim (cs_publisherName data),
       ss_country = map_option trim (cs_country data),
       ss_phone = map_option trim (cs_phone data),
       ss_message = map_option trim (cs_message data),
       ss_siteDescription = map_option trim (cs_siteDescription data),
       ss_monthlyTraffic = map_option trim (cs_monthlyTraffic data),
       ss_domainAuthority = map_option trim (cs_domainAuthority data),
       ss_domainRating = map_option trim (cs_domainRating data),
       ss_websiteOwner = map_option trim (cs_websiteOwner data),
       ss_csvFile = cs_csvFile data,
       ss_status = SubPending,
       ss_submittedAt = now,
       ss_reviewedAt = None,
       ss_reviewedBy = None,
       ss_adminNotes = None \<rparr>"

definition createSiteSubmission ::
  "Faults \<Rightarrow> Mailer \<Rightarrow> int \<Rightarrow> string \<Rightarrow> ISiteSubmission list \<Rightarrow> CreateSiteSubmissionDto
     \<Rightarrow> (Failure + ISiteSubmission) \<times> ISiteSubmission list \<times> Effect list" where
  "createSiteSubmission F mail now sid subs data =
     (let siteSubmission = newSiteSubmission now sid data
      in case db_call F SiteSubmission_save (subs @ [siteSubmission]) of
           Inl e \<Rightarrow> (Inl (RawError e), subs, [])
         | Inr subs' \<Rightarrow>
             (Inr siteSubmission, subs',
              try_send mail
                (SiteSubmissionReceivedEmail (cs_userEmail data) (cs_userName data) (cs_websites data))
                [] ''Failed to send site submission received email:''))"

text \<open>The update document \<^verbatim>\<open>{ ...data, reviewedAt: new Date() }\<close>.\<close>

definition applyReview :: "int \<Rightarrow> UpdateSiteSubmissionDto \<Rightarrow> ISiteSubmission \<Rightarrow> ISiteSubmission" where
  "applyReview now data sub =
     sub\<lparr> ss_status := (case us_status data of Some s \<Rightarrow> s | None \<Rightarrow> ss_status sub),
          ss_adminNotes := set_opt (map_option trim (us_adminNotes data)) (ss_adminNotes sub),
          ss_reviewedBy := set_opt (us_reviewedBy data) (ss_reviewedBy sub),
          ss_reviewedAt := Some now \<rparr>"

definition updateSiteSubmission ::
  "Faults \<Rightarrow> Mailer \<Rightarrow> int \<Rightarrow> ISiteSubmission list \<Rightarrow> string \<Rightarrow> UpdateSiteSubmissionDto
     \<Rightarrow> (Failure + ISiteSubmission) \<times> ISiteSubmission list \<times> Effect list" where
  "updateSiteSubmission F mail now subs i data =
     (case db_call F SiteSubmission_findById (find (\<lambda>d. ss_id d = i) subs) of
        Inl e \<Rightarrow> (Inl (RawError e), subs, [])
      | Inr None \<Rightarrow> (Inl (AppError ''Site submission not found'' 404), subs, [])
      | Inr (Some currentSubmission) \<Rightarrow>
          let oldStatus = ss_status currentSubmission;
              newStatus = us_status data
          in (case db_call F SiteSubmission_findByIdAndUpdate
                     (findByIdAndUpdate ss_id i (applyReview now data) subs) of
                Inl e \<Rightarrow> (Inl (RawError e), subs, [])
              | Inr (None, subs') \<Rightarrow> (Inl (AppError ''Site submission not found'' 404), subs', [])
              | Inr (Some siteSubmission, subs') \<Rightarrow>
                  (Inr siteSubmission, subs',
                   (case newStatus of
                      None \<Rightarrow> []
                    | Some ns \<Rightarrow>
                        if oldStatus \<noteq> ns
                        then (if ns = Approved
                              then try_send mail
                                     (SiteSubmissionApprovalEmail siteSubmission (us_adminNotes data))
                                     [] ''Failed to send site submission status email:''
                              else if ns = Rejected
                              then try_send mail
                                     (SiteSubmissionRejectionEmail siteSubmission (us_adminNotes data))
                                     [] ''Failed to send site submission status email:''
                              else [])
                        else []))))"

section \<open>Payments\<close>

text \<open>
  The error object a gateway SDK hands back: \<open>message\<close>, \<open>httpStatusCode\<close>, and of its
  \<open>response\<close> the fields \<open>error\<close> and \<open>error_description\<close>, each possibly absent.
\<close>

record GatewayError =
  ge_message :: "string option"
  ge_httpStatusCode :: "nat option"
  ge_error :: "string option"
  ge_error_description :: "string option"

record PayPalLink =
  href :: string
  rel :: string

record PayPalPayment =
  pp_id :: string
  pp_state :: string
  pp_links :: "PayPalLink list option"

record StripeIntent =
  pi_id :: string
  pi_client_secret :: "string option"
  pi_status :: string

record PaymentResult =
  success :: bool
  paymentId :: "string option"
  clientSecret :: "string option"
  approvalUrl :: "string option"

text \<open>
  The configuration read at module load: whether the Stripe client exists, the PayPal
  credentials, and whether \<^verbatim>\<open>paypal.configure\<close> threw.
\<close>

record PaymentConfig =
  stripe_secretKey :: "string option"
  paypal_clientId :: "string option"
  paypal_clientSecret :: "string option"
  configure_throws :: bool

definition paypalConfigured :: "PaymentConfig \<Rightarrow> bool" where
  "paypalConfigured cfg =
     (truthy (paypal_clientId cfg) \<and> truthy (paypal_clientSecret cfg)
      \<and> \<not> (length (filter (\<lambda>c. \<not> is_ws c) (str (paypal_clientId cfg))) < 20
           \<or> length (filter (\<lambda>c. \<not> is_ws c) (str (paypal_clientSecret cfg))) < 20)
      \<and> \<not> configure_throws cfg)"

definition createStripePaymentIntent ::
  "PaymentConfig \<Rightarrow> GatewayError + StripeIntent \<Rightarrow> Failure + PaymentResult" where
  "createStripePaymentIntent cfg answer =
     (if \<not> truthy (stripe_secretKey cfg) then Inl (AppError ''Stripe is not configured'' 500)
      else case answer of
             Inl error \<Rightarrow>
               Inl (AppError (str (js_or (ge_message error) (Some ''Failed to create payment intent'')))
                      500)
           | Inr paymentIntent \<Rightarrow>
               Inr \<lparr> success = True, paymentId = Some (pi_id paymentIntent),
                     clientSecret = js_or (pi_client_secret paymentIntent) None,
                     approvalUrl = None \<rparr>)"

definition verifyStripePayment ::
  "PaymentConfig \<Rightarrow> GatewayError + StripeIntent \<Rightarrow> Failure + bool" where
  "verifyStripePayment cfg answer =
     (if \<not> truthy (stripe_secretKey cfg) then Inl (AppError ''Stripe is not configured'' 500)
      else case answer of
             Inl error \<Rightarrow> Inr False
           | Inr paymentIntent \<Rightarrow> Inr (pi_status paymentIntent = ''succeeded''))"

text \<open>\<^verbatim>\<open>error.httpStatusCode || 500\<close>\<close>

definition status_or_500 :: "nat option \<Rightarrow> nat" where
  "status_or_500 c = (case c of None \<Rightarrow> 500 | Some n \<Rightarrow> if n = 0 then 500 else n)"

definition paypal_auth_message :: "GatewayError \<Rightarrow> string" where
  "paypal_auth_message error =
     ''PayPal authentication failed: ''
     @ str (js_or (ge_error_description error)
             (js_or (ge_message error) (Some ''PayPal authentication failed'')))
     @ ''. Please verify your PayPal credentials in the .env file match your PayPal Developer Dashboard.''"

definition createPayPalPayment ::
  "PaymentConfig \<Rightarrow> GatewayError + PayPalPayment option \<Rightarrow> Failure + PaymentResult" where
  "createPayPalPayment cfg answer =
     (if \<not> truthy (paypal_clientId cfg) \<or> \<not> truthy (paypal_clientSecret cfg)
      then Inl (AppError
             ''PayPal is not configured. Please check your PayPal credentials in .env file'' 500)
      else if \<not> paypalConfigured cfg
      then Inl (AppError
             ''PayPal SDK is not initialized. Please check your PayPal credentials'' 500)
      else case answer of
             Inl error \<Rightarrow>
               if ge_httpStatusCode error = Some 401 \<or> ge_error error = Some ''invalid_client''
               then Inl (AppError (paypal_auth_message error) 401)
               else Inl (AppError
                      (str (js_or (ge_message error)
                             (js_or (ge_error_description error)
                                (Some ''Failed to create PayPal payment''))))
                      (status_or_500 (ge_httpStatusCode error)))
           | Inr None \<Rightarrow> Inl (AppError ''Invalid PayPal payment response'' 500)
           | Inr (Some payment) \<Rightarrow>
               (case pp_links payment of
                  None \<Rightarrow> Inl (AppError ''Invalid PayPal payment response'' 500)
                | Some links \<Rightarrow>
                    (case find (\<lambda>link. rel link = ''approval_url'') links of
                       None \<Rightarrow> Inl (AppError ''PayPal approval URL not found'' 500)
                     | Some approval \<Rightarrow>
                         Inr \<lparr> success = True, paymentId = Some (pp_id payment),
                               clientSecret = None, approvalUrl = Some (href approval) \<rparr>)))"

definition executePayPalPayment ::
  "PaymentConfig \<Rightarrow> GatewayError + PayPalPayment \<Rightarrow> Failure + PaymentResult" where
  "executePayPalPayment cfg answer =
     (if \<not> truthy (paypal_clientId cfg) \<or> \<not> truthy (paypal_clientSecret cfg)
      then Inl (AppError ''PayPal is not configured'' 500)
      else case answer of
             Inl error \<Rightarrow>
               Inl (AppError (str (js_or (ge_message error) (Some ''Failed to execute PayPal payment'')))
                      500)
           | Inr payment \<Rightarrow>
               if pp_state payment = ''approved''
               then Inr \<lparr> success = True, paymentId = Some (pp_id payment),
                          clientSecret = None, approvalUrl = None \<rparr>
               else Inl (AppError ''Payment was not approved'' 400))"

section \<open>Sample data\<close>

text \<open>
  One user, her order of an article for 50, and the requests, threads, submissions and
  gateway answers at which the theorems below are instantiated.
\<close>

definition alice :: User where
  "alice = \<lparr> usr_id = ''64b7f0c2a1d3e4f5a6b7c8d9'', user_email = ''alice@x.io'',
             user_nicename = Some ''alice'' \<rparr>"

definition no_fields :: CreateOrderDto where
  "no_fields =
     \<lparr> c_userId = None, c_user_id = None, c_userName = None, c_userEmail = None,
       c_item_name = None, c_price = None, c_type = None, c_description = None,
       c_features = None, c_article = None, c_file = None, c_message = None,
       c_amount = None, c_name = None, c_title = None, c_submittedAt = None,
       c_status = None \<rparr>"

definition order_by_id :: CreateOrderDto where
  "order_by_id =
     no_fields\<lparr> c_userId := Some ''64b7f0c2a1d3e4f5a6b7c8d9'', c_userName := Some ''Alice'',
                c_item_name := Some ''Guest post'', c_price := Some 50,
                c_type := Some ''article'', c_status := Some ''completed'' \<rparr>"

definition order_by_email :: CreateOrderDto where
  "order_by_email =
     no_fields\<lparr> c_userId := Some ''me'', c_userEmail := Some ''Alice@X.io'',
                c_item_name := Some ''Guest post'', c_price := Some 50 \<rparr>"

definition order_of_stranger :: CreateOrderDto where
  "order_of_stranger =
     no_fields\<lparr> c_userEmail := Some ''bob@x.io'', c_user_id := Some ''bob@x.io'',
                c_userName := Some ''Bob'', c_item_name := Some ''Guest post'',
                c_price := Some 50, c_type := Some ''article'' \<rparr>"

definition order_for_free :: CreateOrderDto where
  "order_for_free = order_by_id\<lparr> c_price := Some 0 \<rparr>"

definition order1 :: IOrder where
  "order1 = orderDataToSave 1000 ''o1'' alice order_by_id ''Guest post'' ''article''"

definition order2 :: IOrder where
  "order2 = order1\<lparr> o_id := ''o2'', o_status := Processing, o_price := 100 \<rparr>"

definition no_change :: UpdateOrderDto where
  "no_change =
     \<lparr> u_status = None, u_description = None, u_features = None, u_article = None,
       u_file = None, u_message = None, u_completionMessage = None,
       u_completionLink = None, u_completedAt = None \<rparr>"

definition to_status :: "OrderStatus \<Rightarrow> UpdateOrderDto" where
  "to_status s = no_change\<lparr> u_status := Some s \<rparr>"

definition smtp_down :: Mailer where
  "smtp_down = (\<lambda>n. Threw ''connection refused'')"

definition reply_old :: MessageContent where
  "reply_old = \<lparr> mc_time = Some 100, mc_body = ''hello'' \<rparr>"

definition reply_new :: MessageContent where
  "reply_new = \<lparr> mc_time = Some 995000, mc_body = ''any news?'' \<rparr>"

definition thread1 :: IMessage where
  "thread1 =
     \<lparr> m_commentId = ''t1'', m_userId = ''64b7f0c2a1d3e4f5a6b7c8d9'', m_userName = ''Alice'',
       m_userEmail = ''alice@x.io'', m_type = ''message'', m_content = [reply_old, reply_new],
       m_approved = 0, m_date = 5000 \<rparr>"

definition site_request :: CreateSiteSubmissionDto where
  "site_request =
     \<lparr> cs_userId = None, cs_userName = ''Alice'', cs_userEmail = ''alice@x.io'',
       cs_websites = [''a.io'', ''b.io''], cs_isOwner = True, cs_publisherName = None,
       cs_country = None, cs_phone = None, cs_message = None, cs_siteDescription = None,
       cs_monthlyTraffic = None, cs_domainAuthority = None, cs_domainRating = None,
       cs_websiteOwner = None, cs_csvFile = None \<rparr>"

definition submission1 :: ISiteSubmission where
  "submission1 = newSiteSubmission 1000 ''s1'' site_request"

definition notes_only :: UpdateSiteSubmissionDto where
  "notes_only = \<lparr> us_status = None, us_adminNotes = Some ''looks good'', us_reviewedBy = None \<rparr>"

definition payments :: PaymentConfig where
  "payments =
     \<lparr> stripe_secretKey = Some ''sk_test'',
       paypal_clientId = Some ''AAAAAAAAAAAAAAAAAAAAAAAA'',
       paypal_clientSecret = Some ''BBBBBBBBBBBBBBBBBBBBBBBB'',
       configure_throws = False \<rparr>"

definition unauthorized :: GatewayError where
  "unauthorized =
     \<lparr> ge_message = Some ''Response Status : 401'', ge_httpStatusCode = Some 401,
       ge_error = Some ''invalid_client'',
       ge_error_description = Some ''Client Authentication failed'' \<rparr>"

definition rate_limited :: GatewayError where
  "rate_limited =
     \<lparr> ge_message = Some ''Too many requests'', ge_httpStatusCode = Some 429,
       ge_error = None, ge_error_description = None \<rparr>"

definition stats1 :: OrderStats where
  "stats1 = \<lparr> total = 2, pending = 1, processing = 1, completed = 0, failed = 0,
              totalRevenue = 150, averageOrderValue = 75 \<rparr>"

definition stats0 :: OrderStats where
  "stats0 = \<lparr> total = 0, pending = 0, processing = 0, completed = 0, failed = 0,
              totalRevenue = 0, averageOrderValue = 0 \<rparr>"

definition alice_stream :: Stream where
  "alice_stream = messageStream (\<lambda>t. None) (Some ''alice@x.io'') None (Some ''5'')"

section \<open>Shared lemmas\<close>

lemma find_holds: "find P xs = Some x \<Longrightarrow> P x"
  by (induction xs) (auto split: if_splits)

lemma find_none_set: "(find P xs = None) = (\<forall>x\<in>set xs. \<not> P x)"
  by (auto simp: find_None_iff)

lemma find_update_first:
  "find P xs = Some x \<Longrightarrow> P (f x) \<Longrightarrow> find P (update_first P f xs) = Some (f x)"
  by (induction xs) (auto split: if_splits)

lemma length_update_first: "length (update_first P f xs) = length xs"
  by (induction xs) auto

lemma others_update_first:
  "(\<And>x. P x \<Longrightarrow> P (f x)) \<Longrightarrow>
     filter (\<lambda>x. \<not> P x) (update_first P f xs) = filter (\<lambda>x. \<not> P x) xs"
  by (induction xs) auto

lemma no_faults_none: "\<forall>c. no_faults c = None"
  by (simp add: no_faults_def)

section \<open>Creating an order\<close>

lemma resolveUser_none:
  assumes "\<forall>c. F c = None"
    and "\<not> truthy (c_user_id data) \<or> isObjectId (str (c_user_id data))"
  shows "(resolveUser F users data = Inr None) = (\<forall>u\<in>set users. \<not> user_matches data u)"
  using assms
  by (auto simp: resolveUser_def db_call_def user_matches_def castObjectId_def find_none_set
           split: option.splits)

lemma resolveUser_some:
  assumes "resolveUser F users data = Inr (Some u)"
  shows "u \<in> set users \<and> user_matches data u"
  using assms
  by (auto simp: resolveUser_def db_call_def user_matches_def castObjectId_def find_Some_iff
           split: option.splits if_splits sum.splits)

lemma resolveUser_answers:
  assumes "\<forall>c. F c = None"
    and "\<not> truthy (c_user_id data) \<or> isObjectId (str (c_user_id data))"
  shows "\<exists>r. resolveUser F users data = Inr r"
  using assms
  by (auto simp: resolveUser_def db_call_def castObjectId_def
           split: option.splits if_splits sum.splits)

lemma sample_lowercase:
  "toLowerCase ''Alice@X.io'' = ''alice@x.io''" "toLowerCase ''bob@x.io'' = ''bob@x.io''"
  "toLowerCase ''64b7f0c2a1d3e4f5a6b7c8d9'' = ''64b7f0c2a1d3e4f5a6b7c8d9''"
  by code_simp+

lemma sample_order_created:
  "createOrder no_faults 1000 ''o1'' [alice] [] order_by_id = (Inr order1, [order1])"
  by (simp add: createOrder_def resolveUser_def db_call_def no_faults_def order_by_id_def
        no_fields_def alice_def truthy_def str_def isObjectId_def is_hex_def orderAmount_def
        js_or_def trim_def is_ws_def order1_def Let_def sample_lowercase)

text \<open>
  Where \<open>createOrder\<close> does what it is meant to do. With every database call answering:
  the user found by the supplied \<open>userId\<close> is taken when that has the shape of an identifier,
  and the user found by the lowercased email when the \<open>userId\<close> is absent or has not that
  shape. When \<open>user_id\<close> is absent or an object identifier, a request that no user document
  matches fails with the 404 error, and a request whose user is found and whose amount is
  not greater than 0 fails with the 400 error, the collection unchanged. A stored order
  belongs to a user the request matches, and its amount is greater than 0.
\<close>

lemma createOrder_lookups:
  assumes nf: "\<forall>c. F c = None"
  shows "(truthy (c_userId data) \<and> isObjectId (str (c_userId data))
            \<and> find (\<lambda>u. usr_id u = toLowerCase (str (c_userId data))) users = Some u
          \<longrightarrow> resolveUser F users data = Inr (Some u))
       \<and> (\<not> (truthy (c_userId data) \<and> isObjectId (str (c_userId data)))
            \<and> truthy (c_userEmail data)
            \<and> find (\<lambda>u. user_email u = toLowerCase (str (c_userEmail data))) users = Some u
          \<longrightarrow> resolveUser F users data = Inr (Some u))
       \<and> ((\<not> truthy (c_user_id data) \<or> isObjectId (str (c_user_id data)))
            \<and> (\<forall>u\<in>set users. \<not> user_matches data u)
          \<longrightarrow> createOrder F now oid users orders data
                = (Inl (AppError ''User not found'' 404), orders))
       \<and> ((\<not> truthy (c_user_id data) \<or> isObjectId (str (c_user_id data)))
            \<and> (\<exists>u\<in>set users. user_matches data u) \<and> orderAmount data \<le> 0
          \<longrightarrow> createOrder F now oid users orders data
                = (Inl (AppError ''Order amount must be greater than 0'' 400), orders))
       \<and> (createOrder F now oid users orders data = (Inr ord, orders')
          \<longrightarrow> (\<exists>u\<in>set users. user_matches data u \<and> o_userId ord = usr_id u)
              \<and> 0 < orderAmount data)"
proof (intro conjI impI)
  assume "truthy (c_userId data) \<and> isObjectId (str (c_userId data))
            \<and> find (\<lambda>u. usr_id u = toLowerCase (str (c_userId data))) users = Some u"
  then show "resolveUser F users data = Inr (Some u)"
    using nf by (simp add: resolveUser_def db_call_def)
next
  assume "\<not> (truthy (c_userId data) \<and> isObjectId (str (c_userId data)))
            \<and> truthy (c_userEmail data)
            \<and> find (\<lambda>u. user_email u = toLowerCase (str (c_userEmail data))) users = Some u"
  then show "resolveUser F users data = Inr (Some u)"
    using nf by (auto simp: resolveUser_def db_call_def)
next
  assume a: "(\<not> truthy (c_user_id data) \<or> isObjectId (str (c_user_id data)))
            \<and> (\<forall>u\<in>set users. \<not> user_matches data u)"
  then have "resolveUser F users data = Inr None"
    using resolveUser_none [OF nf, of data users] by blast
  then show "createOrder F now oid users orders data
                = (Inl (AppError ''User not found'' 404), orders)"
    by (simp add: createOrder_def)
next
  assume a: "(\<not> truthy (c_user_id data) \<or> isObjectId (str (c_user_id data)))
            \<and> (\<exists>u\<in>set users. user_matches data u) \<and> orderAmount data \<le> 0"
  then have "resolveUser F users data \<noteq> Inr None"
    using resolveUser_none [OF nf, of data users] by blast
  then obtain u where "resolveUser F users data = Inr (Some u)"
    using a resolveUser_answers [OF nf, of data users]
    by (cases "resolveUser F users data") auto
  with a show "createOrder F now oid users orders data
                = (Inl (AppError ''Order amount must be greater than 0'' 400), orders)"
    by (simp add: createOrder_def)
next
  assume ch: "createOrder F now oid users orders data = (Inr ord, orders')"
  then obtain u where u: "resolveUser F users data = Inr (Some u)"
    by (auto simp: createOrder_def split: sum.splits option.splits)
  from ch u have "o_userId ord = usr_id u"
    by (auto simp: createOrder_def Let_def orderDataToSave_def split: if_splits sum.splits)
  then show "\<exists>u\<in>set users. user_matches data u \<and> o_userId ord = usr_id u"
    using resolveUser_some [OF u] by blast
  from ch u show "0 < orderAmount data"
    by (auto simp: createOrder_def Let_def split: if_splits sum.splits)
qed

lemma createOrder_lookups_sample:
  "resolveUser no_faults [alice] order_by_id = Inr (Some alice)
 \<and> resolveUser no_faults [alice] order_by_email = Inr (Some alice)
 \<and> createOrder no_faults 1000 ''o1'' [alice] [] (order_of_stranger\<lparr> c_user_id := None \<rparr>)
     = (Inl (AppError ''User not found'' 404), [])
 \<and> createOrder no_faults 1000 ''o1'' [alice] [] order_for_free
     = (Inl (AppError ''Order amount must be greater than 0'' 400), [])
 \<and> o_userId order1 = usr_id alice"
proof -
  note defs = order_by_id_def order_by_email_def order_of_stranger_def order_for_free_def
    no_fields_def alice_def truthy_def str_def isObjectId_def is_hex_def user_matches_def
    sample_lowercase orderAmount_def
  have h1: "truthy (c_userId order_by_id) \<and> isObjectId (str (c_userId order_by_id))
      \<and> find (\<lambda>u. usr_id u = toLowerCase (str (c_userId order_by_id))) [alice] = Some alice"
    by (simp add: defs)
  have h2: "\<not> (truthy (c_userId order_by_email) \<and> isObjectId (str (c_userId order_by_email)))
      \<and> truthy (c_userEmail order_by_email)
      \<and> find (\<lambda>u. user_email u = toLowerCase (str (c_userEmail order_by_email))) [alice]
          = Some alice"
    by (simp add: defs)
  have h3: "(\<not> truthy (c_user_id (order_of_stranger\<lparr> c_user_id := None \<rparr>))
       \<or> isObjectId (str (c_user_id (order_of_stranger\<lparr> c_user_id := None \<rparr>))))
      \<and> (\<forall>u\<in>set [alice]. \<not> user_matches (order_of_stranger\<lparr> c_user_id := None \<rparr>) u)"
    by (simp add: defs)
  have h4: "(\<not> truthy (c_user_id order_for_free) \<or> isObjectId (str (c_user_id order_for_free)))
      \<and> (\<exists>u\<in>set [alice]. user_matches order_for_free u) \<and> orderAmount order_for_free \<le> 0"
    by (simp add: defs)
  note t = createOrder_lookups [OF no_faults_none]
  have c1: "resolveUser no_faults [alice] order_by_id = Inr (Some alice)"
    using t [THEN conjunct1, THEN mp, OF h1] .
  have c2: "resolveUser no_faults [alice] order_by_email = Inr (Some alice)"
    using t [THEN conjunct2, THEN conjunct1, THEN mp, OF h2] .
  have c3: "createOrder no_faults 1000 ''o1'' [alice] [] (order_of_stranger\<lparr> c_user_id := None \<rparr>)
     = (Inl (AppError ''User not found'' 404), [])"
    using t [THEN conjunct2, THEN conjunct2, THEN conjunct1, THEN mp, OF h3] .
  have c4: "createOrder no_faults 1000 ''o1'' [alice] [] order_for_free
     = (Inl (AppError ''Order amount must be greater than 0'' 400), [])"
    using t [THEN conjunct2, THEN conjunct2, THEN conjunct2, THEN conjunct1, THEN mp, OF h4] .
  have c5: "o_userId order1 = usr_id alice"
    by (simp add: order1_def orderDataToSave_def)
  show ?thesis using c1 c2 c3 c4 c5 by simp
qed

text \<open>
  Where it does not: when the first two lookups find nobody and \<open>user_id\<close> is set but is no
  object identifier (an email, say), the third lookup rejects, and \<open>createOrder\<close> fails with
  the 500 error that carries the mapper's message, not with the 404 error.
\<close>

lemma createOrder_cast_error:
  assumes "F User_findById = None" and "F User_findOne_email = None"
    and "\<forall>u\<in>set users. \<not> (truthy (c_userId data) \<and> isObjectId (str (c_userId data))
                               \<and> usr_id u = toLowerCase (str (c_userId data)))
                           \<and> \<not> (truthy (c_userEmail data)
                               \<and> user_email u = toLowerCase (str (c_userEmail data)))"
    and "truthy (c_user_id data)" and "castObjectId (str (c_user_id data)) = Inl m"
  shows "createOrder F now oid users orders data = (Inl (createOrder_failed m), orders)"
proof -
  have "resolveUser F users data = Inl m"
    using assms
    by (auto simp: resolveUser_def db_call_def find_none_set split: option.splits sum.splits)
  then show ?thesis by (simp add: createOrder_def)
qed

text \<open>
  Claim C2 does not hold of the code. The request \<open>order_of_stranger\<close> names a user by the
  email \<open>bob@x.io\<close> in \<open>userEmail\<close> and in \<open>user_id\<close> (the controller copies the email into
  \<open>user_id\<close> when the request has none), with a price of 50; no user has that email. No user
  resolves, and the claim asks for the 404 error "User not found". \<open>createOrder\<close> fails with
  a 500 error instead: the third lookup queries \<open>_id\<close> with the email and is rejected.
  Nothing is stored.
\<close>

theorem createOrder_stranger_is_500:
  "createOrder no_faults 1000 ''o1'' [alice] [] order_of_stranger
     = (Inl (AppError
              (''Failed to create order: Cast to ObjectId failed for value ''
               @ [CHR 0x22] @ ''bob@x.io'' @ [CHR 0x22] @ '' (type string) at path ''
               @ [CHR 0x22] @ ''_id'' @ [CHR 0x22] @ '' for model ''
               @ [CHR 0x22] @ ''User'' @ [CHR 0x22]) 500), [])
 \<and> createOrder no_faults 1000 ''o1'' [alice] [] order_of_stranger
     \<noteq> (Inl (AppError ''User not found'' 404), [])"
proof -
  let ?m = "''Cast to ObjectId failed for value '' @ [CHR 0x22] @ ''bob@x.io'' @ [CHR 0x22]
      @ '' (type string) at path '' @ [CHR 0x22] @ ''_id'' @ [CHR 0x22]
      @ '' for model '' @ [CHR 0x22] @ ''User'' @ [CHR 0x22]"
  have c: "castObjectId (str (c_user_id order_of_stranger)) = Inl ?m"
    by (simp add: castObjectId_def order_of_stranger_def no_fields_def str_def isObjectId_def)
  have n: "\<forall>u\<in>set [alice].
      \<not> (truthy (c_userId order_of_stranger) \<and> isObjectId (str (c_userId order_of_stranger))
          \<and> usr_id u = toLowerCase (str (c_userId order_of_stranger)))
      \<and> \<not> (truthy (c_userEmail order_of_stranger)
          \<and> user_email u = toLowerCase (str (c_userEmail order_of_stranger)))"
    by (simp add: order_of_stranger_def no_fields_def truthy_def str_def alice_def
          sample_lowercase)
  have t: "truthy (c_user_id order_of_stranger)"
    by (simp add: order_of_stranger_def no_fields_def truthy_def)
  have f: "no_faults User_findById = None" "no_faults User_findOne_email = None"
    by (simp_all add: no_faults_def)
  have r: "createOrder no_faults 1000 ''o1'' [alice] [] order_of_stranger
      = (Inl (createOrder_failed ?m), [])"
    using createOrder_cast_error [OF f n t c] .
  then show ?thesis by (simp add: createOrder_failed_def)
qed

text \<open>
  Claim C3. An order returned by \<open>createOrder\<close> has the status pending and the creation
  time as its date, and it is the document appended to the collection, whatever the request
  holds, a \<open>status\<close> of its own included.
\<close>

theorem createOrder_pending:
  assumes "createOrder F now oid users orders data = (Inr ord, orders')"
  shows "o_status ord = Pending \<and> o_date ord = now \<and> orders' = orders @ [ord]"
  using assms
  by (auto simp: createOrder_def Let_def orderDataToSave_def db_call_def
           split: sum.splits option.splits if_splits)

theorem createOrder_pending_witness:
  "c_status order_by_id = Some ''completed''
 \<and> createOrder no_faults 1000 ''o1'' [alice] [] order_by_id = (Inr order1, [order1])
 \<and> o_status order1 = Pending \<and> o_date order1 = 1000"
  using createOrder_pending [OF sample_order_created] sample_order_created
  by (simp add: order_by_id_def no_fields_def)

section \<open>Updating an order\<close>

lemma o_id_applyUpdate: "o_id (applyUpdate now data d) = o_id d"
  by (simp add: applyUpdate_def)

lemma o_id_applyCompletion: "o_id (applyCompletion now cm cl d) = o_id d"
  by (simp add: applyCompletion_def)

lemma ss_id_applyReview: "ss_id (applyReview now data d) = ss_id d"
  by (simp add: applyReview_def)

lemma emails_append: "emails (xs @ ys) = emails xs @ emails ys"
  by (simp add: emails_def)

lemma emails_logs: "emails [LogSuccess s] = []" "emails [LogError s] = []" "emails [] = []"
  by (simp_all add: emails_def)

lemma emails_try_send: "emails ok = [] \<Longrightarrow> emails (try_send mail n ok err) = [n]"
  by (simp add: emails_def try_send_def split: MailOutcome.splits)

lemma emails_statusChange:
  "emails (statusChangeEmails mail now data prev ord) =
     (if prev = Pending \<and> o_status ord = Processing then [OrderConfirmationEmail ord]
      else if o_status ord = Completed then [OrderCompletionEmail ord (completedAt_or_now now ord)]
      else if o_status ord = Failed \<or> (o_status ord = Processing \<and> prev \<noteq> Pending)
      then [OrderStatusUpdateEmail ord (o_status ord) (u_message data)]
      else [])"
  by (simp add: statusChangeEmails_def Let_def emails_try_send emails_logs)

text \<open>What \<open>updateOrder\<close> returns when both database calls answer and the order exists.\<close>

lemma updateOrder_answer:
  assumes "F Order_findById = None" and "F Order_findByIdAndUpdate = None"
    and "find (\<lambda>d. o_id d = i) orders = Some prev"
  shows "updateOrder F mail now orders i data =
           (Inr (applyUpdate now data prev),
            update_first (\<lambda>d. o_id d = i) (applyUpdate now data) orders,
            (if o_status (applyUpdate now data prev) \<noteq> o_status prev
             then statusChangeEmails mail now data (o_status prev) (applyUpdate now data prev)
             else [])
            @ [LogSuccess (''Order updated: '' @ o_item_name (applyUpdate now data prev))])"
  using assms by (simp add: updateOrder_def db_call_def findByIdAndUpdate_def Let_def)

lemma updateOrder_emails:
  assumes "fst (updateOrder F mail now orders i data) = Inr ord"
    and "find (\<lambda>d. o_id d = i) orders = Some prev"
  shows "emails (snd (snd (updateOrder F mail now orders i data))) =
     (if o_status ord = o_status prev then []
      else if o_status prev = Pending \<and> o_status ord = Processing then [OrderConfirmationEmail ord]
      else if o_status ord = Completed then [OrderCompletionEmail ord (completedAt_or_now now ord)]
      else if o_status ord = Failed \<or> (o_status ord = Processing \<and> o_status prev \<noteq> Pending)
      then [OrderStatusUpdateEmail ord (o_status ord) (u_message data)]
      else [])"
  using assms
  by (auto simp: updateOrder_def db_call_def findByIdAndUpdate_def Let_def emails_statusChange
                 emails_append emails_logs
           split: option.splits sum.splits prod.splits if_splits)

lemma updateOrder_persists:
  assumes "fst (updateOrder F mail now orders i data) = Inr ord"
  shows "find (\<lambda>d. o_id d = i) (fst (snd (updateOrder F mail now orders i data))) = Some ord"
proof -
  from assms obtain prev where p: "find (\<lambda>d. o_id d = i) orders = Some prev"
    and f: "F Order_findById = None" "F Order_findByIdAndUpdate = None"
    by (auto simp: updateOrder_def db_call_def findByIdAndUpdate_def Let_def
             split: option.splits sum.splits prod.splits if_splits)
  have "o_id prev = i" using find_holds [OF p] .
  then have "find (\<lambda>d. o_id d = i) (update_first (\<lambda>d. o_id d = i) (applyUpdate now data) orders)
      = Some (applyUpdate now data prev)"
    using p by (simp add: find_update_first o_id_applyUpdate)
  then show ?thesis using assms updateOrder_answer [OF f p, of mail now data] by simp
qed

lemma sample_status: "o_status order1 = Pending" "o_status order2 = Processing"
  "o_id order1 = ''o1''" "o_id order2 = ''o2''"
  by (simp_all add: order1_def order2_def orderDataToSave_def)

lemma sample_update:
  "fst (updateOrder no_faults mail 2000 [order1, order2] ''o1'' (to_status s))
     = Inr (applyUpdate 2000 (to_status s) order1)"
  "fst (updateOrder no_faults mail 2000 [order1, order2] ''o2'' (to_status s))
     = Inr (applyUpdate 2000 (to_status s) order2)"
  by (simp_all add: updateOrder_answer no_faults_def sample_status)

lemma sample_new_status:
  "o_status (applyUpdate 2000 (to_status s) ord) = s"
  by (simp add: applyUpdate_def to_status_def no_change_def)

text \<open>
  Claim C1, as the order service has it. \<open>ord\<close> is the order \<open>updateOrder\<close> returns, which is
  the document stored under the identifier afterwards; \<open>prev\<close> is the document stored before.
  When the status has changed and the new status is not pending, exactly one email function
  is called: the payment confirmation for pending to processing, else the completion email
  for a new status completed, else the status-update email for a new status failed or a
  new status processing. When the status is unchanged, or has changed to pending, no email
  function is called.
\<close>

theorem updateOrder_notification:
  assumes "fst (updateOrder F mail now orders i data) = Inr ord"
    and "find (\<lambda>d. o_id d = i) orders = Some prev"
  shows "find (\<lambda>d. o_id d = i) (fst (snd (updateOrder F mail now orders i data))) = Some ord
       \<and> (o_status ord \<noteq> o_status prev \<and> o_status ord \<noteq> Pending
            \<longrightarrow> length (emails (snd (snd (updateOrder F mail now orders i data)))) = 1)
       \<and> (o_status prev = Pending \<and> o_status ord = Processing
            \<longrightarrow> emails (snd (snd (updateOrder F mail now orders i data)))
                  = [OrderConfirmationEmail ord])
       \<and> (o_status prev \<noteq> Completed \<and> o_status ord = Completed
            \<longrightarrow> emails (snd (snd (updateOrder F mail now orders i data)))
                  = [OrderCompletionEmail ord (completedAt_or_now now ord)])
       \<and> (o_status ord \<noteq> o_status prev
            \<and> (o_status ord = Failed \<or> (o_status ord = Processing \<and> o_status prev \<noteq> Pending))
            \<longrightarrow> emails (snd (snd (updateOrder F mail now orders i data)))
                  = [OrderStatusUpdateEmail ord (o_status ord) (u_message data)])
       \<and> (o_status ord = o_status prev \<or> o_status ord = Pending
            \<longrightarrow> emails (snd (snd (updateOrder F mail now orders i data))) = [])"
  using updateOrder_emails [OF assms] updateOrder_persists [OF assms(1)]
  by (cases "o_status ord"; cases "o_status prev"; simp)

theorem updateOrder_notification_witness:
  "emails (snd (snd (updateOrder no_faults smtp_down 2000 [order1, order2] ''o1''
                      (to_status Processing))))
     = [OrderConfirmationEmail (applyUpdate 2000 (to_status Processing) order1)]
 \<and> emails (snd (snd (updateOrder no_faults smtp_down 2000 [order1, order2] ''o2''
                      (to_status Completed))))
     = [OrderCompletionEmail (applyUpdate 2000 (to_status Completed) order2) 2000]
 \<and> emails (snd (snd (updateOrder no_faults smtp_down 2000 [order1, order2] ''o2''
                      (to_status Failed))))
     = [OrderStatusUpdateEmail (applyUpdate 2000 (to_status Failed) order2) Failed None]
 \<and> emails (snd (snd (updateOrder no_faults smtp_down 2000 [order1, order2] ''o2''
                      (to_status Processing)))) = []"
proof -
  have f1: "find (\<lambda>d. o_id d = ''o1'') [order1, order2] = Some order1"
    and f2: "find (\<lambda>d. o_id d = ''o2'') [order1, order2] = Some order2"
    by (simp_all add: sample_status)
  note t1 = updateOrder_notification [OF sample_update(1) f1, of smtp_down Processing]
  note t2 = updateOrder_notification [OF sample_update(2) f2, of smtp_down Completed]
  note t3 = updateOrder_notification [OF sample_update(2) f2, of smtp_down Failed]
  note t4 = updateOrder_notification [OF sample_update(2) f2, of smtp_down Processing]
  have c1: "emails (snd (snd (updateOrder no_faults smtp_down 2000 [order1, order2] ''o1''
                      (to_status Processing))))
     = [OrderConfirmationEmail (applyUpdate 2000 (to_status Processing) order1)]"
    using t1 by (simp add: sample_status sample_new_status)
  have c2: "emails (snd (snd (updateOrder no_faults smtp_down 2000 [order1, order2] ''o2''
                      (to_status Completed))))
     = [OrderCompletionEmail (applyUpdate 2000 (to_status Completed) order2)
          (completedAt_or_now 2000 (applyUpdate 2000 (to_status Completed) order2))]"
    using t2 by (simp add: sample_status sample_new_status)
  have c3: "emails (snd (snd (updateOrder no_faults smtp_down 2000 [order1, order2] ''o2''
                      (to_status Failed))))
     = [OrderStatusUpdateEmail (applyUpdate 2000 (to_status Failed) order2) Failed
          (u_message (to_status Failed))]"
    using t3 by (simp add: sample_status sample_new_status)
  have c4: "emails (snd (snd (updateOrder no_faults smtp_down 2000 [order1, order2] ''o2''
                      (to_status Processing)))) = []"
    using t4 by (simp add: sample_status sample_new_status)
  have e1: "completedAt_or_now 2000 (applyUpdate 2000 (to_status Completed) order2) = 2000"
    by (simp add: completedAt_or_now_def applyUpdate_def to_status_def no_change_def set_opt_def
          order2_def order1_def orderDataToSave_def)
  have e2: "u_message (to_status Failed) = None"
    by (simp add: to_status_def no_change_def)
  show ?thesis using c1 c2 c3 c4 by (simp add: e1 e2)
qed

text \<open>
  The claim as stated fails where an order goes back to pending: the status of order
  \<open>o2\<close> changes from processing to pending, and no email function is called.
\<close>

theorem updateOrder_back_to_pending_counterexample:
  "fst (updateOrder no_faults smtp_down 2000 [order1, order2] ''o2'' (to_status Pending))
     = Inr (applyUpdate 2000 (to_status Pending) order2)
 \<and> o_status order2 = Processing
 \<and> o_status (applyUpdate 2000 (to_status Pending) order2) = Pending
 \<and> emails (snd (snd (updateOrder no_faults smtp_down 2000 [order1, order2] ''o2''
                      (to_status Pending)))) = []"
proof -
  have f2: "find (\<lambda>d. o_id d = ''o2'') [order1, order2] = Some order2"
    by (simp add: sample_status)
  show ?thesis
    using updateOrder_emails [OF sample_update(2) f2, of smtp_down Pending]
    by (simp add: sample_update sample_status sample_new_status)
qed

section \<open>Email failures\<close>

lemma completeOrder_answer:
  assumes "F Order_findByIdAndUpdate = None" and "find (\<lambda>d. o_id d = i) orders = Some prev"
  shows "fst (completeOrder F mail now orders i cm cl) = Inr (applyCompletion now cm cl prev)
       \<and> fst (snd (completeOrder F mail now orders i cm cl))
           = update_first (\<lambda>d. o_id d = i) (applyCompletion now cm cl) orders"
  using assms by (simp add: completeOrder_def db_call_def findByIdAndUpdate_def)

lemma createSiteSubmission_answer:
  assumes "F SiteSubmission_save = None"
  shows "fst (createSiteSubmission F mail now sid subs data) = Inr (newSiteSubmission now sid data)
       \<and> fst (snd (createSiteSubmission F mail now sid subs data))
           = subs @ [newSiteSubmission now sid data]"
  using assms by (simp add: createSiteSubmission_def db_call_def Let_def)

lemma updateSiteSubmission_answer:
  assumes "F SiteSubmission_findById = None" and "F SiteSubmission_findByIdAndUpdate = None"
    and "find (\<lambda>d. ss_id d = j) subs = Some cur"
  shows "fst (updateSiteSubmission F mail now subs j data) = Inr (applyReview now data cur)
       \<and> fst (snd (updateSiteSubmission F mail now subs j data))
           = update_first (\<lambda>d. ss_id d = j) (applyReview now data) subs"
  using assms
  by (simp add: updateSiteSubmission_def db_call_def findByIdAndUpdate_def Let_def)

lemma sample_submission: "ss_id submission1 = ''s1''" "ss_status submission1 = SubPending"
  "ss_reviewedAt submission1 = None"
  by (simp_all add: submission1_def newSiteSubmission_def)

text \<open>
  Claim C4. For every mailer, one whose every call throws included: when the database
  calls of \<open>updateOrder\<close>, \<open>completeOrder\<close>, \<open>createSiteSubmission\<close> or
  \<open>updateSiteSubmission\<close> answer (and the document to update exists), the operation returns
  the written document and no error, and the collection it leaves is the collection as
  written: neither depends on what the email call did. \<open>sendEmail\<close> answers a transport
  error, and a missing configuration, with \<open>false\<close>.
\<close>

theorem email_failure_isolated:
  "(F Order_findById = None \<and> F Order_findByIdAndUpdate = None
      \<and> find (\<lambda>d. o_id d = i) orders = Some prev
    \<longrightarrow> fst (updateOrder F mail now orders i data) = Inr (applyUpdate now data prev)
        \<and> fst (snd (updateOrder F mail now orders i data))
            = update_first (\<lambda>d. o_id d = i) (applyUpdate now data) orders)
 \<and> (F Order_findByIdAndUpdate = None \<and> find (\<lambda>d. o_id d = i) orders = Some prev
    \<longrightarrow> fst (completeOrder F mail now orders i cm cl) = Inr (applyCompletion now cm cl prev)
        \<and> fst (snd (completeOrder F mail now orders i cm cl))
            = update_first (\<lambda>d. o_id d = i) (applyCompletion now cm cl) orders)
 \<and> (F SiteSubmission_save = None
    \<longrightarrow> fst (createSiteSubmission F mail now sid subs cdata) = Inr (newSiteSubmission now sid cdata)
        \<and> fst (snd (createSiteSubmission F mail now sid subs cdata))
            = subs @ [newSiteSubmission now sid cdata])
 \<and> (F SiteSubmission_findById = None \<and> F SiteSubmission_findByIdAndUpdate = None
      \<and> find (\<lambda>d. ss_id d = j) subs = Some cur
    \<longrightarrow> fst (updateSiteSubmission F mail now subs j udata) = Inr (applyReview now udata cur)
        \<and> fst (snd (updateSiteSubmission F mail now subs j udata))
            = update_first (\<lambda>d. ss_id d = j) (applyReview now udata) subs)
 \<and> sendEmail configured (Inl err) = False \<and> sendEmail False transport = False"
  using updateOrder_answer [of F i orders prev mail now data]
    completeOrder_answer [of F i orders prev mail now cm cl]
    createSiteSubmission_answer [of F mail now sid subs cdata]
    updateSiteSubmission_answer [of F j subs cur mail now udata]
  by (simp add: sendEmail_def)

theorem email_failure_isolated_witness:
  "smtp_down (OrderConfirmationEmail (applyUpdate 2000 (to_status Processing) order1))
     = Threw ''connection refused''
 \<and> fst (updateOrder no_faults smtp_down 2000 [order1] ''o1'' (to_status Processing))
     = Inr (applyUpdate 2000 (to_status Processing) order1)
 \<and> fst (snd (updateOrder no_faults smtp_down 2000 [order1] ''o1'' (to_status Processing)))
     = [applyUpdate 2000 (to_status Processing) order1]
 \<and> fst (completeOrder no_faults smtp_down 2000 [order1] ''o1'' (Some ''done'') None)
     = Inr (applyCompletion 2000 (Some ''done'') None order1)
 \<and> fst (snd (completeOrder no_faults smtp_down 2000 [order1] ''o1'' (Some ''done'') None))
     = [applyCompletion 2000 (Some ''done'') None order1]
 \<and> fst (createSiteSubmission no_faults smtp_down 1000 ''s1'' [] site_request) = Inr submission1
 \<and> fst (snd (createSiteSubmission no_faults smtp_down 1000 ''s1'' [] site_request))
     = [submission1]
 \<and> fst (updateSiteSubmission no_faults smtp_down 3000 [submission1] ''s1''
          (notes_only\<lparr> us_status := Some Approved \<rparr>))
     = Inr (applyReview 3000 (notes_only\<lparr> us_status := Some Approved \<rparr>) submission1)
 \<and> fst (snd (updateSiteSubmission no_faults smtp_down 3000 [submission1] ''s1''
          (notes_only\<lparr> us_status := Some Approved \<rparr>)))
     = [applyReview 3000 (notes_only\<lparr> us_status := Some Approved \<rparr>) submission1]
 \<and> sendEmail True (Inl ''connection refused'') = False"
proof -
  have h1: "no_faults Order_findById = None \<and> no_faults Order_findByIdAndUpdate = None
      \<and> find (\<lambda>d. o_id d = ''o1'') [order1] = Some order1"
    by (simp add: no_faults_def sample_status)
  have h2: "no_faults Order_findByIdAndUpdate = None
      \<and> find (\<lambda>d. o_id d = ''o1'') [order1] = Some order1"
    by (simp add: no_faults_def sample_status)
  have h3: "no_faults SiteSubmission_save = None"
    by (simp add: no_faults_def)
  have h4: "no_faults SiteSubmission_findById = None
      \<and> no_faults SiteSubmission_findByIdAndUpdate = None
      \<and> find (\<lambda>d. ss_id d = ''s1'') [submission1] = Some submission1"
    by (simp add: no_faults_def sample_submission)
  note t = email_failure_isolated [where F = no_faults and mail = smtp_down]
  note c1 = t [THEN conjunct1, THEN mp, OF h1, of 2000 "to_status Processing"]
  note c2 = t [THEN conjunct2, THEN conjunct1, THEN mp, OF h2, of 2000 "Some ''done''" None]
  note c3 = t [THEN conjunct2, THEN conjunct2, THEN conjunct1, THEN mp, OF h3,
                of 1000 "''s1''" "[]" site_request, folded submission1_def]
  note c4 = t [THEN conjunct2, THEN conjunct2, THEN conjunct2, THEN conjunct1, THEN mp, OF h4,
                of 3000 "notes_only\<lparr> us_status := Some Approved \<rparr>"]
  note c5 = t [THEN conjunct2, THEN conjunct2, THEN conjunct2, THEN conjunct2, THEN conjunct1,
                of True "''connection refused''"]
  show ?thesis using c1 c2 c3 c4 c5
    by (simp add: smtp_down_def sample_status sample_submission)
qed

section \<open>Reviewing a site submission\<close>

text \<open>
  Claim C10. When the submission exists and the database answers, \<open>updateSiteSubmission\<close>
  returns and stores the submission with \<open>reviewedAt\<close> set to the current time, whatever the
  patch holds, a patch that leaves the status as it is included.
\<close>

theorem updateSiteSubmission_reviewedAt:
  assumes "F SiteSubmission_findById = None" and "F SiteSubmission_findByIdAndUpdate = None"
    and "find (\<lambda>d. ss_id d = j) subs = Some cur"
  shows "fst (updateSiteSubmission F mail now subs j data) = Inr (applyReview now data cur)
       \<and> ss_reviewedAt (applyReview now data cur) = Some now
       \<and> find (\<lambda>d. ss_id d = j) (fst (snd (updateSiteSubmission F mail now subs j data)))
           = Some (applyReview now data cur)"
proof -
  have "ss_id cur = j" using find_holds [OF assms(3)] .
  then have "find (\<lambda>d. ss_id d = j) (update_first (\<lambda>d. ss_id d = j) (applyReview now data) subs)
      = Some (applyReview now data cur)"
    using assms(3) by (simp add: find_update_first ss_id_applyReview)
  moreover have "ss_reviewedAt (applyReview now data cur) = Some now"
    by (simp add: applyReview_def)
  ultimately show ?thesis
    using updateSiteSubmission_answer [OF assms, of mail now data] by simp
qed

theorem updateSiteSubmission_reviewedAt_witness:
  "us_status notes_only = None
 \<and> ss_status (applyReview 3000 notes_only submission1) = ss_status submission1
 \<and> ss_reviewedAt submission1 = None
 \<and> fst (updateSiteSubmission no_faults smtp_down 3000 [submission1] ''s1'' notes_only)
     = Inr (applyReview 3000 notes_only submission1)
 \<and> ss_reviewedAt (applyReview 3000 notes_only submission1) = Some 3000
 \<and> find (\<lambda>d. ss_id d = ''s1'')
      (fst (snd (updateSiteSubmission no_faults smtp_down 3000 [submission1] ''s1'' notes_only)))
     = Some (applyReview 3000 notes_only submission1)"
proof -
  have f: "find (\<lambda>d. ss_id d = ''s1'') [submission1] = Some submission1"
    by (simp add: sample_submission)
  have n: "no_faults SiteSubmission_findById = None"
    "no_faults SiteSubmission_findByIdAndUpdate = None"
    by (simp_all add: no_faults_def)
  show ?thesis
    using updateSiteSubmission_reviewedAt [OF n f, of smtp_down 3000 notes_only]
    by (simp add: notes_only_def applyReview_def sample_submission)
qed

section \<open>Replying to a thread\<close>

text \<open>
  Claim C7, as the message service has it. For a thread that exists, \<open>addMessageToThread\<close>
  returns the thread with the entry appended at the end of its content (one entry more), the
  current time as its date and \<open>approved = 1\<close>, and stores it under its identifier; the
  other threads stay as they were. The new date is not before the old one whenever the old
  date is not after the current time. For an identifier with no thread it returns null and
  leaves the collection as it was.
\<close>

theorem addMessageToThread_appends:
  "(F Message_findOne = None \<and> F Message_save = None
      \<and> find (\<lambda>m. m_commentId m = commentId) messages = Some thread
    \<longrightarrow> fst (addMessageToThread F now messages commentId entry)
          = Inr (Some (appendEntry now entry thread))
        \<and> find (\<lambda>m. m_commentId m = commentId)
              (snd (addMessageToThread F now messages commentId entry))
          = Some (appendEntry now entry thread)
        \<and> filter (\<lambda>m. m_commentId m \<noteq> commentId)
              (snd (addMessageToThread F now messages commentId entry))
          = filter (\<lambda>m. m_commentId m \<noteq> commentId) messages
        \<and> length (snd (addMessageToThread F now messages commentId entry)) = length messages
        \<and> m_content (appendEntry now entry thread) = m_content thread @ [entry]
        \<and> length (m_content (appendEntry now entry thread)) = length (m_content thread) + 1
        \<and> m_date (appendEntry now entry thread) = now
        \<and> (m_date thread \<le> now \<longrightarrow> m_date thread \<le> m_date (appendEntry now entry thread))
        \<and> m_approved (appendEntry now entry thread) = 1)
 \<and> (F Message_findOne = None \<and> find (\<lambda>m. m_commentId m = commentId) messages = None
    \<longrightarrow> addMessageToThread F now messages commentId entry = (Inr None, messages))"
proof (intro conjI impI)
  assume a: "F Message_findOne = None \<and> F Message_save = None
      \<and> find (\<lambda>m. m_commentId m = commentId) messages = Some thread"
  let ?t = "appendEntry now entry thread"
  let ?P = "\<lambda>m. m_commentId m = commentId"
  have run: "addMessageToThread F now messages commentId entry
      = (Inr (Some ?t), update_first ?P (\<lambda>_. ?t) messages)"
    using a by (simp add: addMessageToThread_def db_call_def)
  have key: "m_commentId thread = commentId"
    using a find_holds [of ?P messages thread] by simp
  then have key': "?P ?t" by (simp add: appendEntry_def)
  show "fst (addMessageToThread F now messages commentId entry) = Inr (Some ?t)"
    using run by simp
  show "find ?P (snd (addMessageToThread F now messages commentId entry)) = Some ?t"
    using run a key' find_update_first [of ?P messages thread "\<lambda>_. ?t"] by simp
  show "filter (\<lambda>m. m_commentId m \<noteq> commentId)
          (snd (addMessageToThread F now messages commentId entry))
      = filter (\<lambda>m. m_commentId m \<noteq> commentId) messages"
    using run key' others_update_first [of ?P "\<lambda>_. ?t" messages] by simp
  show "length (snd (addMessageToThread F now messages commentId entry)) = length messages"
    using run by (simp add: length_update_first)
  show "m_content ?t = m_content thread @ [entry]"
    by (simp add: appendEntry_def)
  then show "length (m_content ?t) = length (m_content thread) + 1"
    by simp
  show "m_date ?t = now"
    by (simp add: appendEntry_def)
  then show "m_date thread \<le> m_date ?t" if "m_date thread \<le> now"
    using that by simp
  show "m_approved ?t = 1"
    by (simp add: appendEntry_def)
next
  assume "F Message_findOne = None \<and> find (\<lambda>m. m_commentId m = commentId) messages = None"
  then show "addMessageToThread F now messages commentId entry = (Inr None, messages)"
    by (simp add: addMessageToThread_def db_call_def)
qed

theorem addMessageToThread_appends_witness:
  "fst (addMessageToThread no_faults 6000 [thread1] ''t1'' reply_new)
     = Inr (Some (appendEntry 6000 reply_new thread1))
 \<and> find (\<lambda>m. m_commentId m = ''t1'')
      (snd (addMessageToThread no_faults 6000 [thread1] ''t1'' reply_new))
     = Some (appendEntry 6000 reply_new thread1)
 \<and> m_content (appendEntry 6000 reply_new thread1) = [reply_old, reply_new, reply_new]
 \<and> m_date thread1 = 5000
 \<and> m_date (appendEntry 6000 reply_new thread1) = 6000
 \<and> m_date thread1 \<le> m_date (appendEntry 6000 reply_new thread1)
 \<and> m_approved (appendEntry 6000 reply_new thread1) = 1
 \<and> addMessageToThread no_faults 6000 [thread1] ''t2'' reply_new = (Inr None, [thread1])"
proof -
  have h1: "no_faults Message_findOne = None \<and> no_faults Message_save = None
      \<and> find (\<lambda>m. m_commentId m = ''t1'') [thread1] = Some thread1"
    by (simp add: no_faults_def thread1_def)
  have h2: "no_faults Message_findOne = None
      \<and> find (\<lambda>m. m_commentId m = ''t2'') [thread1] = None"
    by (simp add: no_faults_def thread1_def)
  have d: "m_date thread1 \<le> 6000" "m_content thread1 = [reply_old, reply_new]"
    "m_date thread1 = 5000"
    by (simp_all add: thread1_def)
  note t = addMessageToThread_appends [where F = no_faults and now = 6000
      and messages = "[thread1]" and entry = reply_new]
  note c1 = t [THEN conjunct1, THEN mp, OF h1]
  note c2 = t [THEN conjunct2, THEN mp, OF h2]
  show ?thesis using c1 c2 d by simp
qed

text \<open>
  The claim as stated fails for a thread whose date lies after the current time (the date a
  thread is created with may come from the request): the reply at time 1000 sets the date of
  a thread dated 5000 back to 1000.
\<close>

theorem addMessageToThread_date_counterexample:
  "fst (addMessageToThread no_faults 1000 [thread1] ''t1'' reply_new)
     = Inr (Some (appendEntry 1000 reply_new thread1))
 \<and> m_date thread1 = 5000
 \<and> m_date (appendEntry 1000 reply_new thread1) = 1000
 \<and> \<not> m_date thread1 \<le> m_date (appendEntry 1000 reply_new thread1)"
  by (simp add: addMessageToThread_def db_call_def no_faults_def appendEntry_def thread1_def)

section \<open>Order statistics\<close>

lemma count_by_status:
  "length (filter q xs)
     = length (filter (\<lambda>d. q d \<and> o_status d = Pending) xs)
     + length (filter (\<lambda>d. q d \<and> o_status d = Processing) xs)
     + length (filter (\<lambda>d. q d \<and> o_status d = Completed) xs)
     + length (filter (\<lambda>d. q d \<and> o_status d = Failed) xs)"
proof (induction xs)
  case Nil
  then show ?case by simp
next
  case (Cons x xs)
  then show ?case by (cases "o_status x") auto
qed

lemma aggregate_average:
  "(case aggregate_revenue ms of [] \<Rightarrow> 0 | r # _ \<Rightarrow> snd r) * real (length ms)
     = (case aggregate_revenue ms of [] \<Rightarrow> 0 | r # _ \<Rightarrow> fst r)"
  by (cases ms) (simp_all add: aggregate_revenue_def)

lemma getOrderStats_answer:
  assumes "F Order_countDocuments = None" and "F Order_aggregate = None"
  shows "getOrderStats F agg_cast orders userId =
     Inr \<lparr> total = length (filter (statsQuery userId) orders),
           pending = length (filter (\<lambda>d. statsQuery userId d \<and> o_status d = Pending) orders),
           processing = length (filter (\<lambda>d. statsQuery userId d \<and> o_status d = Processing) orders),
           completed = length (filter (\<lambda>d. statsQuery userId d \<and> o_status d = Completed) orders),
           failed = length (filter (\<lambda>d. statsQuery userId d \<and> o_status d = Failed) orders),
           totalRevenue =
             (case aggregate_revenue
                     (filter (if truthy userId \<and> \<not> agg_cast then (\<lambda>d. False)
                              else statsQuery userId) orders) of
                [] \<Rightarrow> 0 | r # _ \<Rightarrow> fst r),
           averageOrderValue =
             (case aggregate_revenue
                     (filter (if truthy userId \<and> \<not> agg_cast then (\<lambda>d. False)
                              else statsQuery userId) orders) of
                [] \<Rightarrow> 0 | r # _ \<Rightarrow> snd r) \<rparr>"
  using assms by (simp add: getOrderStats_def db_call_def Let_def)

lemma getOrderStats_faults:
  assumes "getOrderStats F agg_cast orders userId = Inr s"
  shows "F Order_countDocuments = None \<and> F Order_aggregate = None"
  using assms
  by (auto simp: getOrderStats_def db_call_def Let_def split: option.splits)

lemma aggregate_sum:
  "(case aggregate_revenue ms of [] \<Rightarrow> 0 | r # _ \<Rightarrow> fst r) = sum_list (map o_price ms)"
  by (cases ms) (simp_all add: aggregate_revenue_def)

text \<open>
  Claim C8, with prices as real numbers (the rounding of floating-point arithmetic is not
  modelled). When the two kinds of database call answer, \<open>getOrderStats\<close> returns a
  result. In every result, with or without a user filter: \<open>total\<close> is the number of orders
  of the collection that match the filter and each status count the number of those in that
  status, so the total is the sum of the four counts; the average times the total is the
  revenue; revenue and average are both 0 when no order of the collection matches the
  filter; and the revenue is the sum of the prices of the matching orders, but 0 when a
  user filter is given and the aggregation does not see it.
\<close>

theorem getOrderStats_consistent:
  "(F Order_countDocuments = None \<and> F Order_aggregate = None
    \<longrightarrow> (\<exists>r. getOrderStats F agg_cast orders userId = Inr r))
 \<and> (getOrderStats F agg_cast orders userId = Inr s
    \<longrightarrow> total s = length (filter (statsQuery userId) orders)
        \<and> pending s = length (filter (\<lambda>d. statsQuery userId d \<and> o_status d = Pending) orders)
        \<and> processing s
            = length (filter (\<lambda>d. statsQuery userId d \<and> o_status d = Processing) orders)
        \<and> completed s
            = length (filter (\<lambda>d. statsQuery userId d \<and> o_status d = Completed) orders)
        \<and> failed s = length (filter (\<lambda>d. statsQuery userId d \<and> o_status d = Failed) orders)
        \<and> total s = pending s + processing s + completed s + failed s
        \<and> averageOrderValue s * real (total s) = totalRevenue s
        \<and> (filter (statsQuery userId) orders = []
            \<longrightarrow> totalRevenue s = 0 \<and> averageOrderValue s = 0)
        \<and> totalRevenue s
            = (if truthy userId \<and> \<not> agg_cast then 0
               else sum_list (map o_price (filter (statsQuery userId) orders))))"
proof (intro conjI impI)
  assume "F Order_countDocuments = None \<and> F Order_aggregate = None"
  then show "\<exists>r. getOrderStats F agg_cast orders userId = Inr r"
    using getOrderStats_answer [of F agg_cast orders userId] by simp
next
  assume r: "getOrderStats F agg_cast orders userId = Inr s"
  let ?query = "statsQuery userId"
  let ?match = "if truthy userId \<and> \<not> agg_cast then (\<lambda>d. False) else ?query"
  let ?rev = "aggregate_revenue (filter ?match orders)"
  have f: "F Order_countDocuments = None" "F Order_aggregate = None"
    using getOrderStats_faults [OF r] by simp_all
  have s: "s = \<lparr> total = length (filter ?query orders),
        pending = length (filter (\<lambda>d. ?query d \<and> o_status d = Pending) orders),
        processing = length (filter (\<lambda>d. ?query d \<and> o_status d = Processing) orders),
        completed = length (filter (\<lambda>d. ?query d \<and> o_status d = Completed) orders),
        failed = length (filter (\<lambda>d. ?query d \<and> o_status d = Failed) orders),
        totalRevenue = (case ?rev of [] \<Rightarrow> 0 | r # _ \<Rightarrow> fst r),
        averageOrderValue = (case ?rev of [] \<Rightarrow> 0 | r # _ \<Rightarrow> snd r) \<rparr>"
    using r getOrderStats_answer [OF f, of agg_cast orders userId] by simp
  show "total s = length (filter ?query orders)"
    unfolding s by simp
  show "pending s = length (filter (\<lambda>d. ?query d \<and> o_status d = Pending) orders)"
    unfolding s by simp
  show "processing s = length (filter (\<lambda>d. ?query d \<and> o_status d = Processing) orders)"
    unfolding s by simp
  show "completed s = length (filter (\<lambda>d. ?query d \<and> o_status d = Completed) orders)"
    unfolding s by simp
  show "failed s = length (filter (\<lambda>d. ?query d \<and> o_status d = Failed) orders)"
    unfolding s by simp
  show "total s = pending s + processing s + completed s + failed s"
    unfolding s using count_by_status [of ?query orders] by simp
  show "averageOrderValue s * real (total s) = totalRevenue s"
  proof (cases "truthy userId \<and> \<not> agg_cast")
    case True
    then have "?rev = []" by (simp add: aggregate_revenue_def)
    then show ?thesis unfolding s by simp
  next
    case False
    then have "?rev = aggregate_revenue (filter ?query orders)" by auto
    then show ?thesis unfolding s using aggregate_average [of "filter ?query orders"] by simp
  qed
  have none: "?rev = []" if "filter ?query orders = []"
  proof -
    have "filter ?match orders = []" using that by (auto simp: filter_empty_conv)
    then show ?thesis by (simp add: aggregate_revenue_def)
  qed
  show "totalRevenue s = 0" if "filter ?query orders = []"
    unfolding s using none [OF that] by simp
  show "averageOrderValue s = 0" if "filter ?query orders = []"
    unfolding s using none [OF that] by simp
  show "totalRevenue s
      = (if truthy userId \<and> \<not> agg_cast then 0
         else sum_list (map o_price (filter ?query orders)))"
  proof (cases "truthy userId \<and> \<not> agg_cast")
    case True
    then have "?rev = []" by (simp add: aggregate_revenue_def)
    then show ?thesis unfolding s using True by simp
  next
    case False
    then have "?rev = aggregate_revenue (filter ?query orders)" by auto
    then show ?thesis unfolding s using False aggregate_sum [of "filter ?query orders"] by auto
  qed
qed

lemma sample_prices: "o_price order1 = 50" "o_price order2 = 100"
  "o_userId order1 = ''64b7f0c2a1d3e4f5a6b7c8d9''" "o_userId order2 = ''64b7f0c2a1d3e4f5a6b7c8d9''"
  by (simp_all add: order1_def order2_def orderDataToSave_def alice_def order_by_id_def
        no_fields_def orderAmount_def)

lemma sample_stats:
  "getOrderStats no_faults False [order1, order2] None = Inr stats1"
  "getOrderStats no_faults False [order1, order2] (Some ''64b7f0c2a1d3e4f5a6b7c8d9'')
     = Inr (stats1\<lparr> totalRevenue := 0, averageOrderValue := 0 \<rparr>)"
  "getOrderStats no_faults False [] None = Inr stats0"
  by (simp_all add: getOrderStats_def db_call_def no_faults_def truthy_def str_def Let_def
        statsQuery_def aggregate_revenue_def sample_status sample_prices stats1_def stats0_def)

theorem getOrderStats_consistent_witness:
  "getOrderStats no_faults False [order1, order2] None = Inr stats1
 \<and> total stats1 = length (filter (statsQuery None) [order1, order2])
 \<and> total stats1 = pending stats1 + processing stats1 + completed stats1 + failed stats1
 \<and> averageOrderValue stats1 * real (total stats1) = totalRevenue stats1
 \<and> totalRevenue stats1 = sum_list (map o_price (filter (statsQuery None) [order1, order2]))
 \<and> total stats1 = 2 \<and> totalRevenue stats1 = 150 \<and> averageOrderValue stats1 = 75
 \<and> getOrderStats no_faults False [] None = Inr stats0
 \<and> totalRevenue stats0 = 0 \<and> averageOrderValue stats0 = 0
 \<and> getOrderStats no_faults False [order1, order2] (Some ''64b7f0c2a1d3e4f5a6b7c8d9'')
     = Inr (stats1\<lparr> totalRevenue := 0, averageOrderValue := 0 \<rparr>)
 \<and> total (stats1\<lparr> totalRevenue := 0, averageOrderValue := 0 \<rparr>) = 2"
proof -
  have f: "no_faults Order_countDocuments = None \<and> no_faults Order_aggregate = None"
    by (simp add: no_faults_def)
  note t = getOrderStats_consistent [where F = no_faults and agg_cast = False]
  have e: "\<exists>r. getOrderStats no_faults False [order1, order2] None = Inr r"
    using t [THEN conjunct1, THEN mp, OF f] .
  note c1 = t [THEN conjunct2, THEN mp, OF sample_stats(1)]
  note c0 = t [THEN conjunct2, THEN mp, OF sample_stats(3)]
  have n: "\<not> truthy None" "filter (statsQuery None) [] = []"
    by (simp_all add: truthy_def)
  have v: "total stats1 = 2 \<and> totalRevenue stats1 = 150 \<and> averageOrderValue stats1 = 75"
    by (simp add: stats1_def)
  have z: "totalRevenue stats0 = 0 \<and> averageOrderValue stats0 = 0"
    using c0 n by blast
  have m: "totalRevenue stats1 = sum_list (map o_price (filter (statsQuery None) [order1, order2]))"
    using c1 n by simp
  show ?thesis using c1 m v z sample_stats by simp
qed

section \<open>Gateway errors\<close>

text \<open>
  Claim C9, as the payment service has it. A failure of PayPal's create call with HTTP
  status 401 or error \<open>invalid_client\<close> becomes the application error with status 401 whose
  message starts "PayPal authentication failed"; any other failure of that call becomes the
  application error with the gateway's message (else its error description, else a fixed
  text) and the gateway's status code (500 when it has none). A failure of Stripe's create
  call or of PayPal's execute call becomes an application error with the gateway's message
  and the fixed status 500. A failure of Stripe's retrieve call is no error:
  \<open>verifyStripePayment\<close> returns false.
\<close>

theorem gateway_errors:
  "(paypalConfigured cfg
      \<and> (ge_httpStatusCode e = Some 401 \<or> ge_error e = Some ''invalid_client'')
    \<longrightarrow> createPayPalPayment cfg (Inl e) = Inl (AppError (paypal_auth_message e) 401))
 \<and> (paypalConfigured cfg
      \<and> ge_httpStatusCode e \<noteq> Some 401 \<and> ge_error e \<noteq> Some ''invalid_client''
    \<longrightarrow> createPayPalPayment cfg (Inl e)
          = Inl (AppError
                  (str (js_or (ge_message e)
                         (js_or (ge_error_description e) (Some ''Failed to create PayPal payment''))))
                  (status_or_500 (ge_httpStatusCode e))))
 \<and> (truthy (stripe_secretKey cfg)
    \<longrightarrow> createStripePaymentIntent cfg (Inl e)
          = Inl (AppError (str (js_or (ge_message e) (Some ''Failed to create payment intent''))) 500))
 \<and> (truthy (paypal_clientId cfg) \<and> truthy (paypal_clientSecret cfg)
    \<longrightarrow> executePayPalPayment cfg (Inl e)
          = Inl (AppError (str (js_or (ge_message e) (Some ''Failed to execute PayPal payment''))) 500))
 \<and> (truthy (stripe_secretKey cfg) \<longrightarrow> verifyStripePayment cfg (Inl e) = Inr False)"
  by (auto simp: createPayPalPayment_def createStripePaymentIntent_def executePayPalPayment_def
        verifyStripePayment_def paypalConfigured_def)

lemma sample_payments:
  "paypalConfigured payments" "truthy (stripe_secretKey payments)"
  "truthy (paypal_clientId payments)" "truthy (paypal_clientSecret payments)"
  by (simp_all add: paypalConfigured_def payments_def truthy_def str_def is_ws_def)

theorem gateway_errors_witness:
  "createPayPalPayment payments (Inl unauthorized)
     = Inl (AppError (paypal_auth_message unauthorized) 401)
 \<and> createPayPalPayment payments (Inl rate_limited) = Inl (AppError ''Too many requests'' 429)
 \<and> createStripePaymentIntent payments (Inl rate_limited)
     = Inl (AppError ''Too many requests'' 500)
 \<and> executePayPalPayment payments (Inl rate_limited) = Inl (AppError ''Too many requests'' 500)
 \<and> verifyStripePayment payments (Inl rate_limited) = Inr False"
proof -
  have h1: "paypalConfigured payments
      \<and> (ge_httpStatusCode unauthorized = Some 401 \<or> ge_error unauthorized = Some ''invalid_client'')"
    by (simp add: sample_payments unauthorized_def)
  have h2: "paypalConfigured payments
      \<and> ge_httpStatusCode rate_limited \<noteq> Some 401 \<and> ge_error rate_limited \<noteq> Some ''invalid_client''"
    by (simp add: sample_payments rate_limited_def)
  have h4: "truthy (paypal_clientId payments) \<and> truthy (paypal_clientSecret payments)"
    by (simp add: sample_payments)
  note c1 = gateway_errors [THEN conjunct1, THEN mp, OF h1]
  note c2 = gateway_errors [THEN conjunct2, THEN conjunct1, THEN mp, OF h2]
  note c3 = gateway_errors [where cfg = payments and e = rate_limited,
      THEN conjunct2, THEN conjunct2, THEN conjunct1, THEN mp, OF sample_payments(2)]
  note c4 = gateway_errors [where e = rate_limited, THEN conjunct2, THEN conjunct2,
      THEN conjunct2, THEN conjunct1, THEN mp, OF h4]
  note c5 = gateway_errors [where cfg = payments and e = rate_limited,
      THEN conjunct2, THEN conjunct2, THEN conjunct2, THEN conjunct2, THEN mp,
      OF sample_payments(2)]
  have m: "str (js_or (ge_message rate_limited) x) = ''Too many requests''"
    "status_or_500 (ge_httpStatusCode rate_limited) = 429" for x
    by (simp_all add: rate_limited_def js_or_def truthy_def str_def status_or_500_def)
  show ?thesis using c1 c2 c3 c4 c5 by (simp add: m)
qed

text \<open>
  The claim as stated fails twice on a gateway answer "Too many requests" with status 429:
  \<open>verifyStripePayment\<close> returns false and raises no error, and \<open>executePayPalPayment\<close>
  raises the error with status 500, not 429.
\<close>

theorem gateway_errors_counterexample:
  "verifyStripePayment payments (Inl rate_limited) = Inr False
 \<and> ge_httpStatusCode rate_limited = Some 429
 \<and> executePayPalPayment payments (Inl rate_limited) = Inl (AppError ''Too many requests'' 500)"
  by (simp add: verifyStripePayment_def executePayPalPayment_def payments_def rate_limited_def
        truthy_def js_or_def str_def)

section \<open>The message stream\<close>

lemma mset_flatten:
  "mset (flatten xs)
     = sum_mset (image_mset (\<lambda>m. mset (map (\<lambda>c. (c, m_commentId m)) (m_content m))) (mset xs))"
  by (induction xs) (simp_all add: flatten_def)

lemma mset_flatten_sort: "mset (flatten (sort_key f xs)) = mset (flatten xs)"
  by (simp add: mset_flatten)

lemma recent_cursor:
  "truthy lastId \<Longrightarrow> recent lastId now e = (\<exists>t. mc_time (fst e) = Some t \<and> now - 10000 < t)"
  by (simp add: recent_def split: option.splits)

lemma recent_no_cursor: "\<not> truthy lastId \<Longrightarrow> recent lastId now e"
  by (simp add: recent_def)

lemma sample_stream:
  "s_out alice_stream = [Connected]" "s_userEmail alice_stream = Some ''alice@x.io''"
  "s_lastId alice_stream = Some ''5''" "s_timer alice_stream" "\<not> s_ended alice_stream"
  "s_polls alice_stream = 0"
  by (simp_all add: alice_stream_def messageStream_def truthy_def Let_def)

lemma sample_flatten:
  "flatten (filter (\<lambda>m. m_userEmail m = str (Some ''alice@x.io'')) [thread1])
     = [(reply_old, ''t1''), (reply_new, ''t1'')]"
  by (simp add: flatten_def thread1_def str_def)

lemma sample_poll:
  "newMessages no_faults [thread1] (Some ''alice@x.io'') (Some ''5'') 1000000
     = [(reply_new, ''t1'')]"
  by (simp add: newMessages_def getMessagesByUserEmail_def db_call_def no_faults_def truthy_def
        str_def flatten_def recent_def thread1_def reply_old_def reply_new_def)

text \<open>
  Claim C5. \<open>newMessages\<close> is what one run of the interval callback computes for the user
  of the connection, and a run on an open connection writes one event for each of its
  entries. When the request had a (non-empty) \<open>lastId\<close>, these are exactly the entries of the
  user's threads, each with the identifier of its thread, whose time is later than the
  current time minus 10000 milliseconds; when it had none, they are all the entries of the
  user's threads. "Exactly" is equality of multisets: the order among threads of the same
  date is the database's. The two-second period is the timer's and is not modelled.
\<close>

theorem stream_poll_window:
  assumes "truthy userEmail" and "F Message_find = None"
  shows "(truthy lastId \<longrightarrow>
            mset (newMessages F db userEmail lastId now)
              = filter_mset (\<lambda>e. \<exists>t. mc_time (fst e) = Some t \<and> now - 10000 < t)
                  (mset (flatten (filter (\<lambda>m. m_userEmail m = str userEmail) db))))
       \<and> (\<not> truthy lastId \<longrightarrow>
            mset (newMessages F db userEmail lastId now)
              = mset (flatten (filter (\<lambda>m. m_userEmail m = str userEmail) db)))
       \<and> (0 < s_polls st \<and> \<not> s_ended st \<longrightarrow>
            s_out (stream_step (Finish F db now) st)
              = s_out st @ map (\<lambda>e. MessageEvent (fst e) (snd e))
                             (newMessages F db (s_userEmail st) (s_lastId st) now))"
proof (intro conjI impI)
  assume c: "truthy lastId"
  have "recent lastId now = (\<lambda>e. \<exists>t. mc_time (fst e) = Some t \<and> now - 10000 < t)"
    using recent_cursor [OF c] by (intro ext) simp
  then show "mset (newMessages F db userEmail lastId now)
              = filter_mset (\<lambda>e. \<exists>t. mc_time (fst e) = Some t \<and> now - 10000 < t)
                  (mset (flatten (filter (\<lambda>m. m_userEmail m = str userEmail) db)))"
    using assms
    by (simp add: newMessages_def getMessagesByUserEmail_def db_call_def mset_flatten_sort)
next
  assume c: "\<not> truthy lastId"
  have "filter (recent lastId now) xs = xs" for xs
    using recent_no_cursor [OF c] by simp
  then show "mset (newMessages F db userEmail lastId now)
              = mset (flatten (filter (\<lambda>m. m_userEmail m = str userEmail) db))"
    using assms
    by (simp add: newMessages_def getMessagesByUserEmail_def db_call_def mset_flatten_sort)
next
  assume "0 < s_polls st \<and> \<not> s_ended st"
  then show "s_out (stream_step (Finish F db now) st)
              = s_out st @ map (\<lambda>e. MessageEvent (fst e) (snd e))
                             (newMessages F db (s_userEmail st) (s_lastId st) now)"
    by (simp add: res_write_def)
qed

theorem stream_poll_window_witness:
  "mset (newMessages no_faults [thread1] (Some ''alice@x.io'') (Some ''5'') 1000000)
     = {# (reply_new, ''t1'') #}
 \<and> mset (newMessages no_faults [thread1] (Some ''alice@x.io'') None 1000000)
     = {# (reply_old, ''t1''), (reply_new, ''t1'') #}
 \<and> s_out (stream_step (Finish no_faults [thread1] 1000000) (stream_step Fire alice_stream))
     = [Connected, MessageEvent reply_new ''t1'']"
proof -
  have u: "truthy (Some ''alice@x.io'')" and n: "no_faults Message_find = None"
    and l: "truthy (Some ''5'')" and l': "\<not> truthy None"
    by (simp_all add: truthy_def no_faults_def)
  have p: "0 < s_polls (stream_step Fire alice_stream) \<and> \<not> s_ended (stream_step Fire alice_stream)"
    by (simp add: sample_stream)
  note t = stream_poll_window [where F = no_faults and userEmail = "Some ''alice@x.io''"
      and db = "[thread1]" and now = 1000000, OF u n]
  note c1 = t [THEN conjunct1, THEN mp, OF l]
  note c2 = t [THEN conjunct2, THEN conjunct1, THEN mp, OF l']
  note c3 = t [THEN conjunct2, THEN conjunct2, THEN mp, OF p]
  have c1': "mset (newMessages no_faults [thread1] (Some ''alice@x.io'') (Some ''5'') 1000000)
     = {# (reply_new, ''t1'') #}"
    using c1 [unfolded sample_flatten] by (simp add: reply_old_def reply_new_def)
  have c2': "mset (newMessages no_faults [thread1] (Some ''alice@x.io'') None 1000000)
     = {# (reply_old, ''t1''), (reply_new, ''t1'') #}"
    using c2 [unfolded sample_flatten] by simp
  have c3': "s_out (stream_step (Finish no_faults [thread1] 1000000) (stream_step Fire alice_stream))
     = [Connected, MessageEvent reply_new ''t1'']"
    using c3 by (simp add: sample_stream sample_poll)
  show ?thesis using c1' c2' c3' by blast
qed

lemma stream_run_append: "stream_run (xs @ ys) st = stream_run ys (stream_run xs st)"
  by (induction xs arbitrary: st) auto

lemma out_grows_step: "\<exists>more. s_out (stream_step e st) = s_out st @ more"
  by (cases e) (auto simp: res_write_def)

lemma out_grows_run: "\<exists>more. s_out (stream_run es st) = s_out st @ more"
proof (induction es arbitrary: st)
  case Nil
  then show ?case by simp
next
  case (Cons e es)
  obtain m1 where "s_out (stream_step e st) = s_out st @ m1"
    using out_grows_step by blast
  moreover obtain m2 where "s_out (stream_run es (stream_step e st)) = s_out (stream_step e st) @ m2"
    using Cons.IH by blast
  ultimately show ?case by simp
qed

lemma closed_step:
  assumes "s_ended st" and "\<not> s_timer st"
  shows "s_ended (stream_step e st) \<and> \<not> s_timer (stream_step e st)
       \<and> s_out (stream_step e st) = s_out st"
  using assms by (cases e) (auto simp: res_write_def)

lemma closed_run:
  assumes "s_ended st" and "\<not> s_timer st"
  shows "s_ended (stream_run es st) \<and> \<not> s_timer (stream_run es st)
       \<and> s_out (stream_run es st) = s_out st"
  using assms
proof (induction es arbitrary: st)
  case Nil
  then show ?case by simp
next
  case (Cons e es)
  then show ?case using closed_step [of st e] by simp
qed

text \<open>
  Claim C6, with time as the order of events. On a connection of an authenticated user
  (the handler found a user email), whatever happens afterwards, the first event written is
  the acknowledgement, so no message event precedes it. Once the client has disconnected,
  the timer is cleared and the response ended, and they stay so; nothing more is written,
  neither by a later tick of the timer nor by a callback that was waiting for the database
  when the client left.
\<close>

theorem messageStream_connected_first_and_stops:
  assumes "truthy (s_userEmail (messageStream verify reqUser token lastId))"
  shows "take 1 (s_out (stream_run es (messageStream verify reqUser token lastId))) = [Connected]
       \<and> s_out (stream_run (es @ Close # es') (messageStream verify reqUser token lastId))
           = s_out (stream_run (es @ [Close]) (messageStream verify reqUser token lastId))
       \<and> \<not> s_timer (stream_run (es @ Close # es') (messageStream verify reqUser token lastId))
       \<and> s_ended (stream_run (es @ Close # es') (messageStream verify reqUser token lastId))"
proof -
  let ?st0 = "messageStream verify reqUser token lastId"
  have "s_out ?st0 = [Connected]"
    using assms by (auto simp: messageStream_def Let_def split: if_splits)
  moreover obtain more where "s_out (stream_run es ?st0) = s_out ?st0 @ more"
    using out_grows_run by blast
  ultimately have first: "take 1 (s_out (stream_run es ?st0)) = [Connected]" by simp
  let ?c = "stream_step Close (stream_run es ?st0)"
  have c: "s_ended ?c" "\<not> s_timer ?c" by simp_all
  have run: "stream_run (es @ Close # es') ?st0 = stream_run es' ?c"
    by (simp add: stream_run_append)
  have run1: "stream_run (es @ [Close]) ?st0 = ?c"
    by (simp add: stream_run_append)
  show ?thesis using first closed_run [OF c, of es'] run run1 by simp
qed

theorem messageStream_connected_first_and_stops_witness:
  "truthy (s_userEmail alice_stream)
 \<and> take 1 (s_out (stream_run [Fire, Finish no_faults [thread1] 1000000, Fire] alice_stream))
     = [Connected]
 \<and> s_out (stream_run ([Fire, Finish no_faults [thread1] 1000000, Fire]
                       @ Close # [Finish no_faults [thread1] 1000001, Fire,
                                  Finish no_faults [thread1] 1000002]) alice_stream)
     = s_out (stream_run ([Fire, Finish no_faults [thread1] 1000000, Fire] @ [Close]) alice_stream)
 \<and> s_out (stream_run ([Fire, Finish no_faults [thread1] 1000000, Fire] @ [Close]) alice_stream)
     = [Connected, MessageEvent reply_new ''t1'']"
proof -
  have a: "truthy (s_userEmail (messageStream (\<lambda>t. None) (Some ''alice@x.io'') None (Some ''5'')))"
    by (simp add: sample_stream [unfolded alice_stream_def] truthy_def)
  note t = messageStream_connected_first_and_stops [OF a,
      of "[Fire, Finish no_faults [thread1] 1000000, Fire]"
         "[Finish no_faults [thread1] 1000001, Fire, Finish no_faults [thread1] 1000002]",
      folded alice_stream_def]
  have v: "s_out (stream_run ([Fire, Finish no_faults [thread1] 1000000, Fire] @ [Close]) alice_stream)
     = [Connected, MessageEvent reply_new ''t1'']"
    by (simp add: sample_stream sample_poll res_write_def)
  have a': "truthy (s_userEmail alice_stream)"
    by (simp add: sample_stream truthy_def)
  show ?thesis using t v a' by blast
qed

end
